theory Spec2Isabelle
  imports Complex_Main
begin

section \<open>Likelihood functions of pyGPs (\<open>pyGPs/Core/lik.py\<close>)\<close>

text \<open>
  A shallow embedding of the four likelihood classes \<open>Gauss\<close>, \<open>Erf\<close>, \<open>Logistic\<close> and
  \<open>Laplace\<close> and of their numerical helpers.

  Conventions of the embedding.
  \<^item> A float64 array is a list of reals (\<open>arr\<close>); a Python or numpy scalar is the list of
    length one. Arithmetic is exact real arithmetic: rounding, overflow, \<open>inf\<close> and \<open>nan\<close>
    are outside the model, and so is the integer dtype of an array.
  \<^item> A batch is a one-dimensional array, as the \<open>__main__\<close> block of the source passes
    it. Elementwise numpy operations broadcast: operands of equal length are combined
    pointwise, an operand of length one is repeated, and any other pairing raises
    \<open>ValueError\<close>. Where the source builds a matrix from a batch, the matrix is given row
    after row.
  \<^item> \<open>np.sqrt\<close> of a negative number is \<open>nan\<close>, and every comparison with \<open>nan\<close> is
    \<open>False\<close>; the values computed from a \<open>nan\<close> are outside the model.
  \<^item> The source is Python 2 with the numpy of its time, where \<open>a == None\<close> for an
    array \<open>a\<close> is the scalar \<open>False\<close> and \<open>None == None\<close> is \<open>True\<close>; every
    \<open>if y == None\<close> guard of the source relies on that.
  \<^item> \<open>inf.EP\<close>, \<open>inf.Laplace\<close> and \<open>inf.VB\<close> are classes of the module \<open>inf\<close>; the
    argument \<open>inffunc\<close> is \<open>None\<close>, an instance of one of them, or anything else.
  \<^item> \<open>scipy.special.erf\<close> and \<open>scipy.special.erfc\<close> are parameters \<open>erf\<close> and \<open>erfc\<close>
    of every function that needs them.
  \<^item> Every exception the source raises is an \<open>Inl\<close> result; a function that runs off its
    end returns \<open>RNone\<close>, as Python does.
\<close>

subsection \<open>Values, errors and broadcasting\<close>

type_synonym arr = "real list"

datatype error = NameError | TypeError | ValueError | IndexError | AttributeError
  | ObjectArrayError

datatype inffunc = infEP | infLaplace | infVB | infOther

datatype retval = RNone | RList0 | RArr arr | RTuple "arr list"

text \<open>The sequences a result holds, in order: a bare array is one sequence.\<close>

fun components :: "retval \<Rightarrow> arr list" where
  "components RNone = []"
| "components RList0 = []"
| "components (RArr a) = [a]"
| "components (RTuple as) = as"

definition bindE :: "error + 'a \<Rightarrow> ('a \<Rightarrow> error + 'b) \<Rightarrow> error + 'b" where
  "bindE m f = (case m of Inl e \<Rightarrow> Inl e | Inr x \<Rightarrow> f x)"

definition blen :: "nat \<Rightarrow> nat \<Rightarrow> nat option" where
  "blen m n = (if m = n then Some m else if m = 1 then Some n
               else if n = 1 then Some m else None)"

fun bshape :: "nat list \<Rightarrow> nat option" where
  "bshape [] = Some 1"
| "bshape (m # ms) = (case bshape ms of None \<Rightarrow> None | Some n \<Rightarrow> blen m n)"

definition bget :: "arr \<Rightarrow> nat \<Rightarrow> real" where
  "bget a i = (if length a = 1 then a ! 0 else a ! i)"

definition ew1 :: "(real \<Rightarrow> real) \<Rightarrow> arr \<Rightarrow> arr" where
  "ew1 f a = map f a"

definition ew2 :: "(real \<Rightarrow> real \<Rightarrow> real) \<Rightarrow> arr \<Rightarrow> arr \<Rightarrow> error + arr" where
  "ew2 f a b =
     (case bshape [length a, length b] of
        None \<Rightarrow> Inl ValueError
      | Some n \<Rightarrow> Inr (map (\<lambda>i. f (bget a i) (bget b i)) [0..<n]))"

definition ew3 :: "(real \<Rightarrow> real \<Rightarrow> real \<Rightarrow> real) \<Rightarrow> arr \<Rightarrow> arr \<Rightarrow> arr \<Rightarrow> error + arr" where
  "ew3 f a b c =
     (case bshape [length a, length b, length c] of
        None \<Rightarrow> Inl ValueError
      | Some n \<Rightarrow> Inr (map (\<lambda>i. f (bget a i) (bget b i) (bget c i)) [0..<n]))"

definition ew4 ::
  "(real \<Rightarrow> real \<Rightarrow> real \<Rightarrow> real \<Rightarrow> real) \<Rightarrow> arr \<Rightarrow> arr \<Rightarrow> arr \<Rightarrow> arr \<Rightarrow> error + arr" where
  "ew4 f a b c d =
     (case bshape [length a, length b, length c, length d] of
        None \<Rightarrow> Inl ValueError
      | Some n \<Rightarrow> Inr (map (\<lambda>i. f (bget a i) (bget b i) (bget c i) (bget d i)) [0..<n]))"

text \<open>
  Matrices of \<open>n\<close> equal rows. \<open>a * np.ones((n,1))\<close> turns a batch \<open>a\<close> into the matrix
  whose \<open>n\<close> rows are \<open>a\<close>; a mask computed from such matrices has \<open>n\<close> equal rows too.
  \<open>selm n msk a\<close> is the indexing \<open>A[M]\<close> of the matrix \<open>A\<close> of rows \<open>a\<close> by the mask
  \<open>M\<close> of rows \<open>msk\<close>: the selected entries row after row, and an \<open>IndexError\<close> when
  the two shapes differ.
\<close>

definition selm :: "nat \<Rightarrow> bool list \<Rightarrow> arr \<Rightarrow> error + arr" where
  "selm n msk a =
     (if length msk = length a
      then Inr (concat (replicate n (map snd (filter fst (zip msk a)))))
      else Inl IndexError)"

text \<open>
  The assignments \<open>c[M] = v\<close> and \<open>c[M] = vs\<close> to a column \<open>c\<close> of shape \<open>(n,1)\<close>
  (\<open>np.zeros((n,1))\<close>): the mask must have one column as well.
\<close>

definition putc1 :: "bool list \<Rightarrow> arr \<Rightarrow> real \<Rightarrow> error + arr" where
  "putc1 msk c v =
     (if length msk = 1 then Inr (if msk ! 0 then map (\<lambda>_. v) c else c)
      else Inl IndexError)"

definition putc :: "bool list \<Rightarrow> arr \<Rightarrow> arr \<Rightarrow> error + arr" where
  "putc msk c vs =
     (if length msk \<noteq> 1 then Inl IndexError
      else if msk ! 0 then
        (if length vs = length c then Inr vs
         else if length vs = 1 then Inr (map (\<lambda>_. vs ! 0) c)
         else Inl ValueError)
      else Inr c)"

definition any :: "bool list \<Rightarrow> bool" where
  "any msk = list_ex (\<lambda>m. m) msk"

text \<open>\<open>np.linalg.norm(s2) > 0\<close>: some entry is not zero.\<close>

definition norm_pos :: "arr \<Rightarrow> bool" where
  "norm_pos s2 = list_ex (\<lambda>x. x \<noteq> 0) s2"

subsection \<open>\<open>Gauss\<close>\<close>

text \<open>\<open>sn2 = np.exp(2. * self.hyp[0])\<close>\<close>

definition Gauss_sn2 :: "arr \<Rightarrow> arr" where
  "Gauss_sn2 log_sigma = ew1 (\<lambda>h. exp (2 * h)) log_sigma"

text \<open>
  The branch \<open>isinstance(inffunc, inf.EP)\<close> of \<open>Gauss.proceed\<close>. Nothing replaces an
  absent \<open>y\<close> or \<open>s2\<close> here: \<open>y-mu\<close> and \<open>sn2+s2\<close> are then a \<open>TypeError\<close>.
\<close>

definition Gauss_EP ::
  "arr \<Rightarrow> arr option \<Rightarrow> arr \<Rightarrow> arr option \<Rightarrow> nat option \<Rightarrow> int \<Rightarrow> error + retval" where
  "Gauss_EP sn2 y mu s2 der nargout =
     (case (y, s2) of
        (Some y, Some s2) \<Rightarrow>
          (if der = None then
             bindE (ew4 (\<lambda>sn2 y mu s2. - ((y - mu)^2) / (sn2 + s2) / 2
                                          - ln (2 * pi * (sn2 + s2)) / 2) sn2 y mu s2)
             (\<lambda>lZ. if nargout > 1 then
                bindE (ew4 (\<lambda>sn2 y mu s2. (y - mu) / (sn2 + s2)) sn2 y mu s2)
                (\<lambda>dlZ. if nargout > 2 then
                   bindE (ew2 (\<lambda>sn2 s2. - 1 / (sn2 + s2)) sn2 s2)
                   (\<lambda>d2lZ. Inr (RTuple [lZ, dlZ, d2lZ]))
                 else Inr (RTuple [lZ, dlZ]))
              else Inr (RArr lZ))
           else
             bindE (ew4 (\<lambda>sn2 y mu s2. ((y - mu)^2 / (sn2 + s2) - 1) / (1 + s2 / sn2))
                      sn2 y mu s2)
             (\<lambda>dlZhyp. Inr (RArr dlZhyp)))
      | (Some y, None) \<Rightarrow> bindE (ew2 (\<lambda>y mu. y - mu) y mu) (\<lambda>ymmu. Inl TypeError)
      | (None, _) \<Rightarrow> Inl TypeError)"

text \<open>The branch \<open>isinstance(inffunc, inf.Laplace)\<close> of \<open>Gauss.proceed\<close>.\<close>

definition Gauss_Laplace ::
  "arr \<Rightarrow> arr option \<Rightarrow> arr \<Rightarrow> nat option \<Rightarrow> int \<Rightarrow> error + retval" where
  "Gauss_Laplace sn2 y mu der nargout =
     (if der = None then
        (let y = (case y of None \<Rightarrow> [0] | Some y \<Rightarrow> y) in
         bindE (ew2 (\<lambda>y mu. y - mu) y mu)
         (\<lambda>ymmu. bindE (ew2 (\<lambda>ymmu sn2. - (ymmu^2) / (2 * sn2) - ln (2 * pi * sn2) / 2) ymmu sn2)
         (\<lambda>lp. if nargout > 1 then
            bindE (ew2 (\<lambda>ymmu sn2. ymmu / sn2) ymmu sn2)
            (\<lambda>dlp. if nargout > 2 then
               bindE (ew2 (\<lambda>ymmu sn2. - 1 / sn2) ymmu sn2)
               (\<lambda>d2lp. if nargout > 3 then
                  Inr (RTuple [lp, dlp, d2lp, ew1 (\<lambda>_. 0) ymmu])
                else Inr (RTuple [lp, dlp, d2lp]))
             else Inr (RTuple [lp, dlp]))
          else Inr (RArr lp))))
      else
        (case y of
           None \<Rightarrow> Inl TypeError
         | Some y \<Rightarrow>
             bindE (ew3 (\<lambda>y mu sn2. (y - mu)^2 / sn2 - 1) y mu sn2)
             (\<lambda>lp_dhyp. bindE (ew3 (\<lambda>y mu sn2. 2 * (mu - y) / sn2) y mu sn2)
             (\<lambda>dlp_dhyp. bindE (ew2 (\<lambda>mu sn2. 2 * 1 / sn2) mu sn2)
             (\<lambda>d2lp_dhyp. Inr (RTuple [lp_dhyp, dlp_dhyp, d2lp_dhyp]))))))"

text \<open>
  \<open>Gauss.proceed\<close>. The prediction branch calls \<open>self.proceed(y, mu, s2, inf.EP())\<close> with
  the default \<open>nargout = 1\<close>. The \<open>infVB\<close> branch and the final \<open>else: raise\<close> of the
  source stand inside a string literal, so every other \<open>inffunc\<close> falls off the end of
  the function.
\<close>

definition Gauss_proceed ::
  "arr \<Rightarrow> arr option \<Rightarrow> arr \<Rightarrow> arr option \<Rightarrow> inffunc option \<Rightarrow> nat option \<Rightarrow> int
     \<Rightarrow> error + retval" where
  "Gauss_proceed log_sigma y mu s2 inffunc der nargout =
     (let sn2 = Gauss_sn2 log_sigma in
      case inffunc of
        None \<Rightarrow>
          (let y = (case y of None \<Rightarrow> ew1 (\<lambda>_. 0) mu | Some y \<Rightarrow> y);
               s2zero = (case s2 of None \<Rightarrow> True | Some s \<Rightarrow> \<not> norm_pos s)
           in bindE
                (if s2zero then
                   bindE (ew3 (\<lambda>y mu sn2. - ((y - mu)^2) / sn2 / 2 - ln (2 * pi * sn2) / 2)
                            y mu sn2)
                   (\<lambda>lp. Inr (lp, (case s2 of None \<Rightarrow> [0] | Some s \<Rightarrow> ew1 (\<lambda>_. 0) s)))
                 else
                   bindE (Gauss_EP sn2 (Some y) mu s2 None 1)
                   (\<lambda>r. case r of RArr lp \<Rightarrow> Inr (lp, the s2) | _ \<Rightarrow> Inl TypeError))
                (\<lambda>(lp, s2).
                   if nargout > 1 then
                     (if nargout > 2 then
                        bindE (ew2 (\<lambda>s2 sn2. s2 + sn2) s2 sn2)
                        (\<lambda>ys2. Inr (RTuple [lp, mu, ys2]))
                      else Inr (RTuple [lp, mu]))
                   else Inr (RArr lp)))
      | Some infEP \<Rightarrow> Gauss_EP sn2 y mu s2 der nargout
      | Some infLaplace \<Rightarrow> Gauss_Laplace sn2 y mu der nargout
      | Some _ \<Rightarrow> Inr RNone)"

subsection \<open>\<open>Erf\<close>\<close>

text \<open>
  The header of \<open>Erf.proceed\<close> and \<open>Logistic.proceed\<close>:
  \<open>y = np.sign(y); y[y==0] = 1\<close>.
\<close>

definition ysign :: "real \<Rightarrow> real" where
  "ysign v = (let s = sgn v in if s = 0 then 1 else s)"

text \<open>\<open>Erf.logphi(z, p)\<close>, one entry: \<open>ok = z>zmax\<close>, \<open>bd = z<zmin\<close>, \<open>ip\<close> between.\<close>

definition logphi1 :: "real \<Rightarrow> real \<Rightarrow> real" where
  "logphi1 z p =
     (let zmin = - 62 / 10; zmax = - 55 / 10 in
      if z > zmax then ln p
      else
        (let asym = - ln pi / 2 - z^2 / 2 - ln (sqrt (z^2 / 2 + 2) - z / sqrt 2) in
         if z < zmin then asym
         else
           (let lam = 1 / (1 + exp (25 * (1 / 2 - (z - zmin) / (zmax - zmin))))
            in (1 - lam) * asym + lam * ln p)))"

text \<open>The masks of \<open>logphi\<close> and \<open>gauOverCumGauss\<close> index \<open>p\<close> by the shape of \<open>z\<close>.\<close>

definition logphi :: "arr \<Rightarrow> arr \<Rightarrow> error + arr" where
  "logphi z p = (if length z = length p then Inr (map2 logphi1 z p) else Inl IndexError)"

text \<open>
  \<open>Erf.gauOverCumGauss(f, p)\<close>, one entry: \<open>ok = f>-5\<close>, \<open>bd = f<-6\<close>, and on the rest
  \<open>lam = -5. - f\<close>.
\<close>

definition gauOverCumGauss1 :: "real \<Rightarrow> real \<Rightarrow> real" where
  "gauOverCumGauss1 f p =
     (if f > - 5 then (exp (- (f^2) / 2) / sqrt (2 * pi)) / p
      else if f < - 6 then sqrt (f^2 / 4 + 1) - f / 2
      else
        (let lam = - 5 - f
         in (1 - lam) * (exp (- (f^2) / 2) / sqrt (2 * pi)) / p
            + lam * (sqrt (f^2 / 4 + 1) - f / 2)))"

definition gauOverCumGauss :: "arr \<Rightarrow> arr \<Rightarrow> error + arr" where
  "gauOverCumGauss f p =
     (if length f = length p then Inr (map2 gauOverCumGauss1 f p) else Inl IndexError)"

text \<open>
  The ratio as the specification words it, for comparison with \<open>gauOverCumGauss1\<close>:
  direct evaluation for \<open>z > -5\<close>, the upper bound for \<open>z < -6\<close>, and in between a
  blend with a logistic interpolation weight in \<open>z\<close>, of the form \<open>logphi\<close> uses
  between its own switch points.
\<close>

definition gauOverCumGauss_logistic :: "real \<Rightarrow> real \<Rightarrow> real" where
  "gauOverCumGauss_logistic z p =
     (let direct = (exp (- (z^2) / 2) / sqrt (2 * pi)) / p;
          bound = sqrt (z^2 / 4 + 1) - z / 2
      in if z > - 5 then direct
         else if z < - 6 then bound
         else
           (let zmin = - 6; zmax = - 5;
                lam = 1 / (1 + exp (25 * (1 / 2 - (z - zmin) / (zmax - zmin))))
            in (1 - lam) * bound + lam * direct))"

text \<open>
  \<open>Erf.cumGauss(y, f, 2)\<close>. Every caller passes an array or the scalar \<open>1\<close> for \<open>y\<close>,
  so \<open>yf = y*f\<close>.
\<close>

definition cumGauss :: "(real \<Rightarrow> real) \<Rightarrow> arr \<Rightarrow> arr \<Rightarrow> error + (arr \<times> arr)" where
  "cumGauss erf y f =
     bindE (ew2 (\<lambda>y f. y * f) y f)
     (\<lambda>yf. let p = ew1 (\<lambda>yf. (1 + erf (yf / sqrt 2)) / 2) yf in
        bindE (logphi yf p) (\<lambda>lp. Inr (p, lp)))"

text \<open>The branch \<open>isinstance(inffunc, inf.Laplace)\<close> of \<open>Erf.proceed\<close>; \<open>y\<close> is normalised.\<close>

definition Erf_Laplace ::
  "(real \<Rightarrow> real) \<Rightarrow> arr \<Rightarrow> arr \<Rightarrow> nat option \<Rightarrow> int \<Rightarrow> error + retval" where
  "Erf_Laplace erf y mu der nargout =
     (if der = None then
        bindE (ew2 (\<lambda>y f. y * f) y mu)
        (\<lambda>yf. bindE (cumGauss erf y mu)
        (\<lambda>(p, lp). if nargout > 1 then
           bindE (gauOverCumGauss yf p)
           (\<lambda>n_p. bindE (ew2 (\<lambda>y n_p. y * n_p) y n_p)
           (\<lambda>dlp. if nargout > 2 then
              bindE (ew2 (\<lambda>n_p yf. - (n_p^2) - yf * n_p) n_p yf)
              (\<lambda>d2lp. if nargout > 3 then
                 bindE (ew3 (\<lambda>y f n_p. 2 * y * n_p^3 + 3 * f * n_p^2 + y * (f^2 - 1) * n_p)
                          y mu n_p)
                 (\<lambda>d3lp. Inr (RTuple [lp, dlp, d2lp, d3lp]))
               else Inr (RTuple [lp, dlp, d2lp]))
            else Inr (RTuple [lp, dlp])))
         else Inr (RArr lp)))
      else Inr RList0)"

text \<open>
  The branch \<open>isinstance(inffunc, inf.EP)\<close> of \<open>Erf.proceed\<close>. \<open>1+s2\<close> is a
  \<open>TypeError\<close> when \<open>s2\<close> is \<open>None\<close>. \<open>y\<close> is never \<open>None\<close> after the header, so
  \<open>z = z*y\<close> always runs.
\<close>

definition Erf_EP ::
  "(real \<Rightarrow> real) \<Rightarrow> arr \<Rightarrow> arr \<Rightarrow> arr option \<Rightarrow> nat option \<Rightarrow> int \<Rightarrow> error + retval" where
  "Erf_EP erf y mu s2 der nargout =
     (if der = None then
        (case s2 of
           None \<Rightarrow> Inl TypeError
         | Some s2 \<Rightarrow>
             bindE (ew2 (\<lambda>mu s2. mu / sqrt (1 + s2)) mu s2)
             (\<lambda>z. bindE (cumGauss erf y z)
             (\<lambda>(junk, lZ). bindE (ew2 (\<lambda>z y. z * y) z y)
             (\<lambda>z. if nargout > 1 then
                bindE (gauOverCumGauss z (ew1 exp lZ))
                (\<lambda>n_p. bindE (ew3 (\<lambda>y n_p s2. y * n_p / sqrt (1 + s2)) y n_p s2)
                (\<lambda>dlZ. if nargout > 2 then
                   bindE (ew3 (\<lambda>n_p z s2. - n_p * (z + n_p) / (1 + s2)) n_p z s2)
                   (\<lambda>d2lZ. Inr (RTuple [lZ, dlZ, d2lZ]))
                 else Inr (RTuple [lZ, dlZ])))
              else Inr (RArr lZ)))))
      else Inr RList0)"

text \<open>
  \<open>Erf.proceed\<close>. The \<open>infVB\<close> code of the source stands inside a string literal: an
  \<open>inffunc\<close> that is neither \<open>inf.Laplace\<close> nor \<open>inf.EP\<close> falls off the end of the
  function. The prediction branch re-enters \<open>proceed\<close> with \<open>inf.EP()\<close> and the default
  \<open>nargout = 1\<close>; the header runs again on the labels.
\<close>

definition Erf_proceed ::
  "(real \<Rightarrow> real) \<Rightarrow> arr option \<Rightarrow> arr \<Rightarrow> arr option \<Rightarrow> inffunc option \<Rightarrow> nat option \<Rightarrow> int
     \<Rightarrow> error + retval" where
  "Erf_proceed erf y mu s2 inffunc der nargout =
     (let y = (case y of None \<Rightarrow> [1] | Some y \<Rightarrow> ew1 ysign y) in
      case inffunc of
        None \<Rightarrow>
          bindE (ew2 (\<lambda>y m. y * 1) y mu)
          (\<lambda>y. let s2zero = (case s2 of None \<Rightarrow> True | Some s \<Rightarrow> \<not> norm_pos s) in
             bindE
               (if s2zero then cumGauss erf y mu
                else
                  bindE (Erf_EP erf (ew1 ysign y) mu s2 None 1)
                  (\<lambda>r. case r of RArr lp \<Rightarrow> Inr (ew1 exp lp, lp) | _ \<Rightarrow> Inl TypeError))
               (\<lambda>(p, lp).
                  if nargout > 1 then
                    (let ymu = ew1 (\<lambda>p. 2 * p - 1) p in
                     if nargout > 2 then
                       (let ys2 = ew1 (\<lambda>p. 4 * p * (1 - p)) p
                        in Inr (RTuple [lp, ymu, ys2]))
                     else Inr (RTuple [lp, ymu]))
                  else Inr (RArr lp)))
      | Some infLaplace \<Rightarrow> Erf_Laplace erf y mu der nargout
      | Some infEP \<Rightarrow> Erf_EP erf y mu s2 der nargout
      | Some _ \<Rightarrow> Inr RNone)"

subsection \<open>\<open>Logistic\<close>\<close>

text \<open>
  \<open>Logistic.proceed\<close> starts with \<open>np.atleast_2d\<close> on \<open>mu\<close>, \<open>y\<close> and \<open>s2\<close>: a flat
  batch of \<open>n\<close> entries becomes a row of shape \<open>(1,n)\<close>, and an absent argument becomes
  the \<open>1\<times>1\<close> object array that holds \<open>None\<close>. Such an array is not \<open>None\<close>, so the
  guards \<open>if not y == None\<close> and \<open>if not s2 == None\<close> always take their first branch:
  \<^item> for an absent \<open>y\<close>, \<open>np.sign\<close> compares \<open>None\<close> with \<open>0\<close> (in Python 2 \<open>None\<close> is
    below every number), so \<open>y\<close> is the object array holding the integer \<open>-1\<close>;
    arithmetic on an object array works entry by entry, while \<open>np.exp\<close>, \<open>np.log\<close> and
    \<open>erf\<close> raise on any entry of it (\<open>ObjectArrayError\<close> stands for that exception);
  \<^item> for an absent \<open>s2\<close>, \<open>np.linalg.norm\<close> and \<open>np.dot\<close> raise on the \<open>None\<close> entry.
  The flag \<open>yobj\<close> below says that \<open>y\<close> is that object array.

  The truth value of an array, as \<open>if\<close>, \<open>max\<close> and \<open>min\<close> of Python take it: the entry
  of an array with one entry, \<open>False\<close> for an empty array, \<open>ValueError\<close> otherwise.
\<close>

definition truth :: "bool list \<Rightarrow> error + bool" where
  "truth bs = (case bs of [] \<Rightarrow> Inr False | [b] \<Rightarrow> Inr b | _ \<Rightarrow> Inl ValueError)"

text \<open>The approximation coefficients \<open>lam\<close> (before the factor \<open>sqrt 2\<close>) and \<open>c\<close>.\<close>

definition Logistic_lam :: arr where
  "Logistic_lam = map (\<lambda>l. sqrt 2 * l) [44 / 100, 41 / 100, 40 / 100, 39 / 100, 36 / 100]"

definition Logistic_c :: arr where
  "Logistic_c = [1146480988574439 / 10^13, - 1508871030070582 / 10^12,
                 2676085036831241 / 10^12, - 1356294962039222 / 10^12,
                 7543285642111850 / 10^14]"

text \<open>
  \<open>Logistic._log_expA_x(A, x)\<close> for a matrix \<open>A\<close> of one row and a column \<open>x\<close>:
  \<open>B = maxA * sum(x)\<close>, \<open>y = log(exp(A-B) . x) + maxA\<close>.
\<close>

definition log_expA_x :: "arr \<Rightarrow> arr \<Rightarrow> real" where
  "log_expA_x A x =
     (let maxA = Max (set A); B = maxA * sum_list x
      in ln (sum_list (map2 (\<lambda>a xj. exp (a - B) * xj) A x)) + maxA)"

text \<open>\<open>_expABz_expAx(A, x, B, z)\<close> for matrices \<open>A\<close>, \<open>B\<close> of one row and columns \<open>x\<close>, \<open>z\<close>.\<close>

definition expABz_expAx :: "arr \<Rightarrow> arr \<Rightarrow> arr \<Rightarrow> arr \<Rightarrow> real" where
  "expABz_expAx A x B z =
     (let maxA = Max (set A); A = map (\<lambda>a. a - maxA) A
      in sum_list (map2 (\<lambda>(a, b) zj. exp a * b * zj) (zip A B) z)
         / sum_list (map2 (\<lambda>a xj. exp a * xj) A x))"

text \<open>
  The branch \<open>isinstance(inffunc, inf.EP)\<close> of \<open>Logistic.proceed\<close>. The three
  \<open>np.dot\<close> with a \<open>1\<times>5\<close> matrix need a left operand of shape \<open>(1,1)\<close>. \<open>lZtail\<close> is
  the Python \<open>min\<close> of an array and \<open>-0.1\<close>: when that is the float \<open>-0.1\<close>, the
  subscript \<open>lZtail[id]\<close> is a \<open>TypeError\<close>.
\<close>

definition Logistic_EP ::
  "(real \<Rightarrow> real) \<Rightarrow> bool \<Rightarrow> arr \<Rightarrow> arr \<Rightarrow> arr option \<Rightarrow> nat option \<Rightarrow> int \<Rightarrow> error + retval" where
  "Logistic_EP erf yobj y mu s2 der nargout =
     (if der = None then
        bindE (ew2 (\<lambda>y m. y * 1) y mu)
        (\<lambda>y. if length y \<noteq> 1 then Inl ValueError
           else if length mu \<noteq> 1 then Inl ValueError
           else case s2 of
             None \<Rightarrow> Inl ObjectArrayError
           | Some s2 \<Rightarrow>
               if length s2 \<noteq> 1 then Inl ValueError
               else if yobj then Inl ObjectArrayError
               else
                 (let y = y ! 0; mu = mu ! 0; s2 = s2 ! 0; lam = Logistic_lam; c = Logistic_c in
                  bindE (Erf_proceed erf (Some (replicate 5 y)) (map (\<lambda>l. mu * l) lam)
                           (Some (map (\<lambda>l. s2 * l^2) lam)) (Some infEP) None 3)
                  (\<lambda>a. case a of
                     RTuple [lZc, dlZc, d2lZc] \<Rightarrow>
                       (let lZ = log_expA_x lZc c;
                            dlZ = expABz_expAx lZc c dlZc (map2 (\<lambda>c l. c * l) c lam);
                            d2lZ = expABz_expAx lZc c (map2 (\<lambda>d d2. d^2 + d2) dlZc d2lZc)
                                     (map2 (\<lambda>c l. c * l^2) c lam) - dlZ^2;
                            val = \<bar>mu\<bar> - 196 / 200 * s2 - 4;
                            lam = 1 / (1 + exp (- 10 * val));
                            lZtail = s2 / 2 - \<bar>mu\<bar>
                        in if - 1 / 10 < lZtail then Inl TypeError
                           else
                             (let dlZtail = - sgn mu;
                                  d2lZtail = 0;
                                  id = (y * mu > 0);
                                  lZtail = (if id then ln (1 - exp lZtail) else lZtail);
                                  dlZtail = (if id then 0 else dlZtail);
                                  lZ = (1 - lam) * lZ + lam * lZtail;
                                  dlZ = (1 - lam) * dlZ + lam * dlZtail;
                                  d2lZ = (1 - lam) * d2lZ + lam * d2lZtail
                              in if nargout > 1 then
                                   (if nargout > 2 then Inr (RTuple [[lZ], [dlZ], [d2lZ]])
                                    else Inr (RTuple [[lZ], [dlZ]]))
                                 else Inr (RArr [lZ])))
                   | _ \<Rightarrow> Inl TypeError)))
      else Inr RList0)"

text \<open>
  The branch \<open>isinstance(inffunc, inf.Laplace)\<close> of \<open>Logistic.proceed\<close>.
  \<open>ps = max(0,s)\<close> and \<open>s = min(0,f)\<close> are the builtins of Python on the whole array:
  they take the truth value of \<open>s > 0\<close> and of \<open>f < 0\<close>.
\<close>

definition Logistic_Laplace ::
  "bool \<Rightarrow> arr \<Rightarrow> arr \<Rightarrow> nat option \<Rightarrow> int \<Rightarrow> error + retval" where
  "Logistic_Laplace yobj y mu der nargout =
     (if der = None then
        bindE (ew2 (\<lambda>y f. y * f) y mu)
        (\<lambda>yf. let s = ew1 uminus yf in
         bindE (truth (map (\<lambda>s. s > 0) s))
         (\<lambda>t. let ps = (if t then s else [0]) in
          if yobj \<and> s \<noteq> [] then Inl ObjectArrayError
          else
            bindE (ew2 (\<lambda>ps s. - (ps + ln (exp (- ps) + exp (s - ps)))) ps s)
            (\<lambda>lp. if nargout > 1 then
               bindE (truth (map (\<lambda>f. f < 0) mu))
               (\<lambda>t. let s = (if t then mu else [0]) in
                bindE (ew2 (\<lambda>s f. exp s / (exp s + exp (s - f))) s mu)
                (\<lambda>p. bindE (ew2 (\<lambda>y p. (y + 1) / 2 - p) y p)
                (\<lambda>dlp. if nargout > 2 then
                   bindE (ew2 (\<lambda>s f. - exp (2 * s - f) / (exp s + exp (s - f))^2) s mu)
                   (\<lambda>d2lp. if nargout > 3 then
                      bindE (ew2 (\<lambda>d2lp p. 2 * d2lp * (1 / 2 - p)) d2lp p)
                      (\<lambda>d3lp. Inr (RTuple [lp, dlp, d2lp, d3lp]))
                    else Inr (RTuple [lp, dlp, d2lp]))
                 else Inr (RTuple [lp, dlp]))))
             else Inr (RArr lp))))
      else Inr RList0)"

text \<open>
  The prediction branch (\<open>inffunc == None\<close>) of \<open>Logistic.proceed\<close>. \<open>lp = yf\<close> and
  \<open>lp[ok] = -np.log(1.+np.exp(-yf[ok]))\<close> with \<open>ok = -35 < yf\<close>.
\<close>

definition Logistic_predict ::
  "(real \<Rightarrow> real) \<Rightarrow> bool \<Rightarrow> arr \<Rightarrow> arr \<Rightarrow> arr option \<Rightarrow> int \<Rightarrow> error + retval" where
  "Logistic_predict erf yobj y mu s2 nargout =
     bindE (ew2 (\<lambda>y m. y * 1) y mu)
     (\<lambda>y. case s2 of
        None \<Rightarrow> Inl ObjectArrayError
      | Some s2 \<Rightarrow>
          bindE
            (if \<not> norm_pos s2 then
               bindE (ew2 (\<lambda>y mu. y * mu) y mu)
               (\<lambda>yf. if yobj \<and> filter (\<lambda>v. - 35 < v) yf \<noteq> [] then Inl ObjectArrayError
                  else Inr (ew1 (\<lambda>v. if - 35 < v then - ln (1 + exp (- v)) else v) yf))
             else
               bindE (Logistic_EP erf yobj (ew1 ysign y) mu (Some s2) None 1)
               (\<lambda>r. case r of RArr lp \<Rightarrow> Inr lp | _ \<Rightarrow> Inl TypeError))
            (\<lambda>lp. if nargout > 1 then
               (if yobj \<and> lp \<noteq> [] then Inl ObjectArrayError
                else
                  (let p = ew1 exp lp; ymu = ew1 (\<lambda>p. 2 * p - 1) p in
                   if nargout > 2 then
                     (let ys2 = ew1 (\<lambda>p. 4 * p * (1 - p)) p in Inr (RTuple [lp, ymu, ys2]))
                   else Inr (RTuple [lp, ymu])))
             else Inr (RArr lp)))"

text \<open>
  The branch \<open>isinstance(inffunc, inf.VB)\<close>: \<open>b = (y/2)*np.ones((n,1))\<close> is a matrix of
  \<open>n\<close> rows, given here row after row. On the object array of an absent \<open>y\<close> the
  division is Python 2's division of the integers \<open>-1\<close> and \<open>2\<close>.
\<close>

definition Logistic_VB :: "bool \<Rightarrow> arr \<Rightarrow> arr option \<Rightarrow> error + retval" where
  "Logistic_VB yobj y s2 =
     (let n = (case s2 of None \<Rightarrow> 1 | Some s2 \<Rightarrow> length s2);
          yhalf = (if yobj then ew1 (\<lambda>v. of_int \<lfloor>v / 2\<rfloor>) y else ew1 (\<lambda>v. v / 2) y);
          b = concat (replicate n yhalf);
          z = ew1 (\<lambda>_. 0) b
      in Inr (RTuple [b, z]))"

definition Logistic_proceed ::
  "(real \<Rightarrow> real) \<Rightarrow> arr option \<Rightarrow> arr \<Rightarrow> arr option \<Rightarrow> inffunc option \<Rightarrow> nat option \<Rightarrow> int
     \<Rightarrow> error + retval" where
  "Logistic_proceed erf y mu s2 inffunc der nargout =
     (let yobj = (y = None);
          y = (case y of None \<Rightarrow> [- 1] | Some y \<Rightarrow> ew1 ysign y) in
      case inffunc of
        None \<Rightarrow> Logistic_predict erf yobj y mu s2 nargout
      | Some infLaplace \<Rightarrow> Logistic_Laplace yobj y mu der nargout
      | Some infEP \<Rightarrow> Logistic_EP erf yobj y mu s2 der nargout
      | Some infVB \<Rightarrow> Logistic_VB yobj y s2
      | Some infOther \<Rightarrow> Inr RNone)"

subsection \<open>\<open>Laplace\<close>\<close>

text \<open>
  The hyperparameter of \<open>Laplace\<close> is the scalar \<open>log_sigma\<close> of its constructor
  \<open>__init__(self, log_sigma=np.log(0.1))\<close>; \<open>sn = np.exp(self.hyp)\<close> is an array of
  one entry. \<open>scipy.special.erfc\<close> is the parameter \<open>erfc\<close>.

  \<open>Laplace._logphi(z)\<close>, one entry.
\<close>

definition Laplace_logphi1 :: "(real \<Rightarrow> real) \<Rightarrow> real \<Rightarrow> real" where
  "Laplace_logphi1 erf z =
     (let zmin = - 62 / 10; zmax = - 55 / 10 in
      if z > zmax then ln (1 / 2 * (1 + erf (z / sqrt 2)))
      else
        (let asym = - 1 / 2 * (ln pi + z^2) - ln (sqrt (2 + 1 / 2 * z^2) - z / sqrt 2) in
         if z < zmin then asym
         else
           (let lam = 1 / (1 + exp (25 * (1 / 2 - (z - zmin) / (zmax - zmin))))
            in (1 - lam) * asym + lam * ln (1 / 2 * (1 + erf (z / sqrt 2))))))"

text \<open>\<open>Laplace._lerfc(t)\<close>, one entry: \<open>ok = t<tmin\<close>, \<open>bd = t>tmax\<close>.\<close>

definition lerfc1 :: "(real \<Rightarrow> real) \<Rightarrow> real \<Rightarrow> real" where
  "lerfc1 erfc t =
     (let tmin = 20; tmax = 25 in
      if t < tmin then ln (erfc t)
      else
        (let bound = ln (2 / sqrt pi) - t^2 - ln (t + sqrt (t^2 + 4 / pi)) in
         if t > tmax then bound
         else
           (let lam = 1 / (1 + exp (12 * (1 / 2 - (t - tmin) / (tmax - tmin))))
            in lam * bound + (1 - lam) * ln (erfc t))))"

text \<open>\<open>Laplace._logsum2exp(logx)\<close>, one row.\<close>

definition logsum2exp :: "arr \<Rightarrow> real" where
  "logsum2exp logx =
     (let max_logx = Max (set logx)
      in ln (sum_list (map (\<lambda>l. exp (l - max_logx)) logx)) + max_logx)"

text \<open>
  The general case of the EP branch for one entry \<open>(y, mu, s2, sn)\<close>: the substitution
  \<open>tvar\<close>, \<open>tmu\<close>, the arguments \<open>zp\<close>, \<open>zm\<close> and the terms \<open>ap\<close>, \<open>am\<close>.
\<close>

definition Laplace_tvar :: "real \<Rightarrow> real \<Rightarrow> real" where
  "Laplace_tvar s2 sn = s2 / (sn^2 + 1 / 10^16)"

definition Laplace_tmu :: "real \<Rightarrow> real \<Rightarrow> real \<Rightarrow> real" where
  "Laplace_tmu y mu sn = (mu - y) / (sn + 1 / 10^16)"

definition Laplace_zp :: "real \<times> real \<times> real \<times> real \<Rightarrow> real" where
  "Laplace_zp e = (case e of (y, mu, s2, sn) \<Rightarrow>
     (Laplace_tmu y mu sn + sqrt 2 * Laplace_tvar s2 sn) / sqrt (Laplace_tvar s2 sn))"

definition Laplace_zm :: "real \<times> real \<times> real \<times> real \<Rightarrow> real" where
  "Laplace_zm e = (case e of (y, mu, s2, sn) \<Rightarrow>
     (Laplace_tmu y mu sn - sqrt 2 * Laplace_tvar s2 sn) / sqrt (Laplace_tvar s2 sn))"

definition Laplace_ap :: "(real \<Rightarrow> real) \<Rightarrow> real \<times> real \<times> real \<times> real \<Rightarrow> real" where
  "Laplace_ap erf e = (case e of (y, mu, s2, sn) \<Rightarrow>
     Laplace_logphi1 erf (- Laplace_zp e) + sqrt 2 * Laplace_tmu y mu sn)"

definition Laplace_am :: "(real \<Rightarrow> real) \<Rightarrow> real \<times> real \<times> real \<times> real \<Rightarrow> real" where
  "Laplace_am erf e = (case e of (y, mu, s2, sn) \<Rightarrow>
     Laplace_logphi1 erf (Laplace_zm e) - sqrt 2 * Laplace_tmu y mu sn)"

text \<open>\<open>lZ[id] = self._logsum2exp(apam) + tvar - np.log(sn[id]*np.sqrt(2.))\<close>\<close>

definition Laplace_gen_lZ :: "(real \<Rightarrow> real) \<Rightarrow> real \<times> real \<times> real \<times> real \<Rightarrow> real" where
  "Laplace_gen_lZ erf e = (case e of (y, mu, s2, sn) \<Rightarrow>
     logsum2exp [Laplace_ap erf e, Laplace_am erf e] + Laplace_tvar s2 sn - ln (sn * sqrt 2))"

definition Laplace_lqp :: "(real \<Rightarrow> real) \<Rightarrow> real \<times> real \<times> real \<times> real \<Rightarrow> real" where
  "Laplace_lqp erf e =
     - 1 / 2 * (Laplace_zp e)^2 - 1 / 2 * ln (2 * pi) - Laplace_logphi1 erf (- Laplace_zp e)"

definition Laplace_lqm :: "(real \<Rightarrow> real) \<Rightarrow> real \<times> real \<times> real \<times> real \<Rightarrow> real" where
  "Laplace_lqm erf e =
     - 1 / 2 * (Laplace_zm e)^2 - 1 / 2 * ln (2 * pi) - Laplace_logphi1 erf (Laplace_zm e)"

text \<open>
  \<open>self._expABz_expAx(_z1, _x, _z2, _x)\<close> with the rows \<open>(ap, am)\<close> and \<open>(dap, dam)\<close>;
  \<open>Laplace._expABz_expAx\<close> returns \<open>y[0]\<close>, the value of the first row.
\<close>

definition Laplace_gen_dlZ :: "(real \<Rightarrow> real) \<Rightarrow> real \<times> real \<times> real \<times> real \<Rightarrow> real" where
  "Laplace_gen_dlZ erf e = (case e of (y, mu, s2, sn) \<Rightarrow>
     (let dap = - exp (Laplace_lqp erf e - 1 / 2 * ln s2) + sqrt 2 / sn;
          dam = exp (Laplace_lqm erf e - 1 / 2 * ln s2) - sqrt 2 / sn
      in expABz_expAx [Laplace_ap erf e, Laplace_am erf e] [1, 1] [dap, dam] [1, 1]))"

definition Laplace_gen_d2lZ ::
  "(real \<Rightarrow> real) \<Rightarrow> real \<times> real \<times> real \<times> real \<Rightarrow> real \<Rightarrow> real" where
  "Laplace_gen_d2lZ erf e dlZ = (case e of (y, mu, s2, sn) \<Rightarrow>
     (let a = sqrt 8 / sn / sqrt s2;
          bp = 2 / sn^2 - (a - Laplace_zp e / s2) * exp (Laplace_lqp erf e);
          bm = 2 / sn^2 - (a + Laplace_zm e / s2) * exp (Laplace_lqm erf e)
      in expABz_expAx [Laplace_ap erf e, Laplace_am erf e] [1, 1] [bp, bm] [1, 1] - dlZ^2))"

text \<open>The general case of the derivative mode of the EP branch, one entry.\<close>

definition Laplace_gen_dlZhyp :: "(real \<Rightarrow> real) \<Rightarrow> real \<times> real \<times> real \<times> real \<Rightarrow> real" where
  "Laplace_gen_dlZhyp erfc e = (case e of (y, mu, s2, sn) \<Rightarrow>
     (let tmu = Laplace_tmu y mu sn; tvar = Laplace_tvar s2 sn;
          zp = (tvar + tmu / sqrt 2) / sqrt tvar; vp = tvar + sqrt 2 * tmu;
          zm = (tvar - tmu / sqrt 2) / sqrt tvar; vm = tvar - sqrt 2 * tmu;
          dzp = (- s2 / sn + tmu * sn / sqrt 2) / sqrt s2;
          dvp = - 2 * tvar - sqrt 2 * tmu;
          dzm = (- s2 / sn - tmu * sn / sqrt 2) / sqrt s2;
          dvm = - 2 * tvar + sqrt 2 * tmu;
          lezp = lerfc1 erfc zp;
          lezm = lerfc1 erfc zm;
          vmax = max (vp + lezp) (vm + lezm);
          ep = exp (vp + lezp - vmax);
          em = exp (vm + lezm - vmax);
          dap = ep * (dvp - 2 / sqrt pi * exp (- (zp^2) - lezp) * dzp);
          dam = em * (dvm - 2 / sqrt pi * exp (- (zm^2) - lezm) * dzm)
      in (dap + dam) / (ep + em) - 1))"

text \<open>
  The masks of the EP branch, with \<open>fac = 1e3\<close>:
  \<open>idlik = (fac*sn) < np.sqrt(s2)\<close>, \<open>idgau = (fac*np.sqrt(s2)) < sn\<close> and
  \<open>id = np.logical_and(np.logical_not(idgau), np.logical_not(idlik))\<close>. For a negative
  \<open>s2\<close> the square root is \<open>nan\<close> and both comparisons are \<open>False\<close>.
\<close>

definition fac :: real where
  "fac = 1000"

definition idlik1 :: "real \<Rightarrow> real \<Rightarrow> bool" where
  "idlik1 sn s2 = (0 \<le> s2 \<and> fac * sn < sqrt s2)"

definition idgau1 :: "real \<Rightarrow> real \<Rightarrow> bool" where
  "idgau1 sn s2 = (0 \<le> s2 \<and> fac * sqrt s2 < sn)"

definition id1 :: "real \<Rightarrow> real \<Rightarrow> bool" where
  "id1 sn s2 = (\<not> idgau1 sn s2 \<and> \<not> idlik1 sn s2)"

text \<open>
  The branch \<open>isinstance(inffunc, inf.EP)\<close> of \<open>Laplace.proceed\<close>.
  \<^item> \<open>s2.flatten()\<close> is an \<open>AttributeError\<close> when \<open>s2\<close> is \<open>None\<close>.
  \<^item> \<open>sn = np.exp(self.hyp)\<close> has one entry. With \<open>on = np.ones((n,1))\<close>, the products
    \<open>y*on\<close>, \<open>mu*on\<close>, \<open>s2*on\<close> are matrices of \<open>n\<close> rows \<open>y\<close>, \<open>mu\<close>, \<open>s2\<close>, and
    \<open>sn*on\<close> is a column; the masks are matrices of \<open>n\<close> rows, with one column for each
    entry of \<open>s2\<close>. \<open>lZ\<close>, \<open>dlZ\<close>, \<open>d2lZ\<close> and \<open>dlZhyp\<close> are columns \<open>np.zeros((n,1))\<close>.
  \<^item> For the entries of \<open>idlik\<close> the source calls
    \<open>Gauss(log_sigma=np.log(s2[idlik])/2).proceed(mu[idlik], y[idlik])\<close>, that is
    prediction mode with the default \<open>nargout = 1\<close>: \<open>a\<close> is the array \<open>lp\<close>, and
    \<open>a[0]\<close>, \<open>a[1]\<close>, \<open>a[2]\<close> are its first three entries.
  \<^item> For the entries of \<open>idgau\<close> the source calls \<open>Laplace(log_hyp=np.log(sn[idgau]))\<close>;
    the constructor has no parameter \<open>log_hyp\<close>, which is a \<open>TypeError\<close>.
  \<^item> \<open>zp\<close>, \<open>zm\<close>, \<open>ap\<close>, \<open>am\<close> are bound inside \<open>if np.any(id)\<close> only; the block
    \<open>if nargout>1\<close> reads them (\<open>gen = None\<close> below is the state where they are not
    bound).
  \<^item> \<open>np.reshape(np.array([ap,am]),(1,2))\<close> needs exactly one selected entry.
  \<open>Laplace_EP\<close> computes \<open>n\<close> and the rows of the masks, \<open>Laplace_EP_body\<close> is the code
  after the masks.
\<close>

definition Laplace_EP_body ::
  "(real \<Rightarrow> real) \<Rightarrow> (real \<Rightarrow> real) \<Rightarrow> nat \<Rightarrow> arr \<Rightarrow> arr \<Rightarrow> arr \<Rightarrow> arr \<Rightarrow> bool list
     \<Rightarrow> bool list \<Rightarrow> nat option \<Rightarrow> int \<Rightarrow> error + retval" where
  "Laplace_EP_body erf erfc n y mu s2 sn idlik idgau der nargout =
     (let id = map2 (\<lambda>g l. \<not> g \<and> \<not> l) idgau idlik in
      if der = None then
        bindE
          (if any idlik then
             bindE (selm n idlik s2)
             (\<lambda>s2l. bindE (selm n idlik mu)
             (\<lambda>mul. bindE (selm n idlik y)
             (\<lambda>yl. bindE (Gauss_proceed (ew1 (\<lambda>s. ln s / 2) s2l) (Some mul) yl
                              None None None 1)
             (\<lambda>a. case a of
                RArr a \<Rightarrow>
                  bindE (putc1 idlik (replicate n 0) (a ! 0))
                  (\<lambda>lZ. if length a < 2 then Inl IndexError
                     else
                       bindE (putc1 idlik (replicate n 0) (a ! 1))
                       (\<lambda>dlZ. if length a < 3 then Inl IndexError
                          else
                            bindE (putc1 idlik (replicate n 0) (a ! 2))
                            (\<lambda>d2lZ. Inr (lZ, dlZ, d2lZ))))
              | _ \<Rightarrow> Inl TypeError))))
           else Inr (replicate n 0, replicate n 0, replicate n 0))
        (\<lambda>(lZ, dlZ, d2lZ).
           bindE
             (if any idgau then bindE (selm n idgau sn) (\<lambda>snl. Inl TypeError)
              else Inr ())
           (\<lambda>_. bindE
             (if any id then
                bindE (selm n id s2)
                (\<lambda>s2s. bindE (selm n id sn)
                (\<lambda>sns. bindE (selm n id mu)
                (\<lambda>mus. bindE (selm n id y)
                (\<lambda>ys. let es = zip ys (zip mus (zip s2s sns)) in
                   bindE (putc id lZ (map (Laplace_gen_lZ erf) es))
                   (\<lambda>lZ. Inr (lZ, Some es))))))
              else Inr (lZ, None))
             (\<lambda>(lZ, gen).
                if nargout > 1 then
                  (case gen of
                     None \<Rightarrow> Inl NameError
                   | Some es \<Rightarrow>
                       bindE (putc1 id dlZ (Laplace_gen_dlZ erf (hd es)))
                       (\<lambda>dlZ. if nargout > 2 then
                          (if length es \<noteq> 1 then Inl ValueError
                           else
                             bindE (putc1 id d2lZ
                                      (Laplace_gen_d2lZ erf (hd es)
                                         (Laplace_gen_dlZ erf (hd es))))
                             (\<lambda>d2lZ. Inr (RTuple [lZ, dlZ, d2lZ])))
                        else Inr (RTuple [lZ, dlZ])))
                else Inr (RArr lZ))))
      else
        bindE
          (if any idlik then putc1 idlik (replicate n 0) 0 else Inr (replicate n 0))
        (\<lambda>dlZhyp. bindE
          (if any idgau then bindE (selm n idgau sn) (\<lambda>snl. Inl TypeError)
           else Inr ())
        (\<lambda>_. bindE
          (if any id then
             bindE (selm n id mu)
             (\<lambda>mus. bindE (selm n id y)
             (\<lambda>ys. bindE (selm n id sn)
             (\<lambda>sns. bindE (selm n id s2)
             (\<lambda>s2s. putc id dlZhyp
                      (map (Laplace_gen_dlZhyp erfc) (zip ys (zip mus (zip s2s sns))))))))
           else Inr dlZhyp)
        (\<lambda>dlZhyp. Inr (RArr dlZhyp)))))"

definition Laplace_EP ::
  "(real \<Rightarrow> real) \<Rightarrow> (real \<Rightarrow> real) \<Rightarrow> arr \<Rightarrow> arr \<Rightarrow> arr \<Rightarrow> arr option \<Rightarrow> nat option \<Rightarrow> int
     \<Rightarrow> error + retval" where
  "Laplace_EP erf erfc sn y mu s2 der nargout =
     (case s2 of
        None \<Rightarrow> Inl AttributeError
      | Some s2 \<Rightarrow>
         (let n = Max (set [length y, length mu, length s2, length sn]);
              idlik = map (idlik1 (sn ! 0)) s2;
              idgau = map (idgau1 (sn ! 0)) s2
          in Laplace_EP_body erf erfc n y mu s2 sn idlik idgau der nargout))"

text \<open>
  The branch \<open>isinstance(inffunc, inf.Laplace)\<close> of \<open>Laplace.proceed\<close>:
  \<open>lp = np.abs(ymmu)/b - np.log(2*b)\<close>; the first derivative is bound to the name
  \<open>dip\<close>, and every \<open>return\<close> under \<open>if nargout>1\<close> reads the name \<open>dlp\<close>, which no
  statement binds.
\<close>

definition Laplace_Laplace :: "arr \<Rightarrow> arr \<Rightarrow> arr \<Rightarrow> nat option \<Rightarrow> int \<Rightarrow> error + retval" where
  "Laplace_Laplace b y mu der nargout =
     (if der = None then
        bindE (ew2 (\<lambda>y mu. y - mu) y mu)
        (\<lambda>ymmu. bindE (ew2 (\<lambda>ymmu b. \<bar>ymmu\<bar> / b - ln (2 * b)) ymmu b)
        (\<lambda>lp. if nargout > 1 then
           bindE (ew2 (\<lambda>ymmu b. sgn ymmu / b) ymmu b)
           (\<lambda>dip. Inl NameError)
         else Inr (RArr lp)))
      else Inr RList0)"

text \<open>The prediction branch (\<open>inffunc == None\<close>) of \<open>Laplace.proceed\<close>.\<close>

definition Laplace_predict ::
  "(real \<Rightarrow> real) \<Rightarrow> (real \<Rightarrow> real) \<Rightarrow> arr \<Rightarrow> arr \<Rightarrow> arr \<Rightarrow> arr \<Rightarrow> arr option \<Rightarrow> int
     \<Rightarrow> error + retval" where
  "Laplace_predict erf erfc sn b y mu s2 nargout =
     (let s2zero = (case s2 of None \<Rightarrow> True | Some s \<Rightarrow> \<not> norm_pos s) in
      bindE
        (if s2zero then
           bindE (ew3 (\<lambda>y mu b. - \<bar>y - mu\<bar> / b - ln (2 * b)) y mu b)
           (\<lambda>lp. Inr (lp, [0]))
         else
           bindE (Laplace_EP erf erfc sn y mu s2 None 1)
           (\<lambda>r. case r of RArr lp \<Rightarrow> Inr (lp, the s2) | _ \<Rightarrow> Inl TypeError))
        (\<lambda>(lp, s2).
           if nargout > 1 then
             (if nargout > 2 then
                bindE (ew2 (\<lambda>s2 sn. s2 + sn^2) s2 sn)
                (\<lambda>ys2. Inr (RTuple [lp, mu, ys2]))
              else Inr (RTuple [lp, mu]))
           else Inr (RArr lp)))"

text \<open>
  The branch \<open>isinstance(inffunc, inf.VB)\<close> of \<open>Laplace.proceed\<close>: \<open>b\<close> is the column
  \<open>np.zeros((n,1))\<close> and \<open>z = y*np.ones((n,1))\<close> the matrix of \<open>n\<close> rows \<open>y\<close>.
\<close>

definition Laplace_VB :: "arr \<Rightarrow> arr option \<Rightarrow> error + retval" where
  "Laplace_VB y s2 =
     (case s2 of
        None \<Rightarrow> Inl AttributeError
      | Some s2 \<Rightarrow>
          (let n = length s2; b = replicate n 0; z = concat (replicate n y)
           in Inr (RTuple [b, z])))"

definition Laplace_proceed ::
  "(real \<Rightarrow> real) \<Rightarrow> (real \<Rightarrow> real) \<Rightarrow> real \<Rightarrow> arr option \<Rightarrow> arr \<Rightarrow> arr option
     \<Rightarrow> inffunc option \<Rightarrow> nat option \<Rightarrow> int \<Rightarrow> error + retval" where
  "Laplace_proceed erf erfc log_sigma y mu s2 inffunc der nargout =
     (let sn = ew1 exp [log_sigma];
          b = ew1 (\<lambda>sn. sn / sqrt 2) sn;
          y = (case y of None \<Rightarrow> ew1 (\<lambda>_. 0) mu | Some y \<Rightarrow> y) in
      case inffunc of
        None \<Rightarrow> Laplace_predict erf erfc sn b y mu s2 nargout
      | Some infLaplace \<Rightarrow> Laplace_Laplace b y mu der nargout
      | Some infEP \<Rightarrow> Laplace_EP erf erfc sn y mu s2 der nargout
      | Some infVB \<Rightarrow> Laplace_VB y s2
      | Some infOther \<Rightarrow> Inr RNone)"

subsection \<open>The error function\<close>

text \<open>
  \<open>scipy.special.erf\<close> and \<open>scipy.special.erfc\<close> as the error function and its
  complement, given by the Maclaurin series of \<open>erf\<close>. The functions above take \<open>erf\<close>
  and \<open>erfc\<close> as parameters; these two constants instantiate them in statements about
  concrete calls.
\<close>

definition erf_series :: "real \<Rightarrow> real" where
  "erf_series x = 2 / sqrt pi * (\<Sum>n. (- 1)^n * x^(2 * n + 1) / (fact n * real (2 * n + 1)))"

definition erfc_series :: "real \<Rightarrow> real" where
  "erfc_series x = 1 - erf_series x"

subsection \<open>The likelihood interface\<close>

datatype likelihood = Gauss arr | Erf | Logistic | Laplace real

definition proceed ::
  "(real \<Rightarrow> real) \<Rightarrow> (real \<Rightarrow> real) \<Rightarrow> likelihood \<Rightarrow> arr option \<Rightarrow> arr \<Rightarrow> arr option
     \<Rightarrow> inffunc option \<Rightarrow> nat option \<Rightarrow> int \<Rightarrow> error + retval" where
  "proceed erf erfc lik y mu s2 inffunc der nargout =
     (case lik of
        Gauss log_sigma \<Rightarrow> Gauss_proceed log_sigma y mu s2 inffunc der nargout
      | Erf \<Rightarrow> Erf_proceed erf y mu s2 inffunc der nargout
      | Logistic \<Rightarrow> Logistic_proceed erf y mu s2 inffunc der nargout
      | Laplace log_sigma \<Rightarrow> Laplace_proceed erf erfc log_sigma y mu s2 inffunc der nargout)"

subsection \<open>Broadcasting facts\<close>

lemma bget_nth: "i < length a \<Longrightarrow> bget a i = a ! i"
  by (auto simp: bget_def)

lemma bget_single [simp]: "bget [c] i = c"
  by (simp add: bget_def)

lemma ew2_same: "length a = length b \<Longrightarrow> ew2 f a b = Inr (map2 f a b)"
proof -
  assume l: "length a = length b"
  have s: "bshape [length a, length b] = Some (length b)"
    using l by (simp add: blen_def)
  have "map (\<lambda>i. f (bget a i) (bget b i)) [0..<length b] = map2 f a b"
    using l by (intro nth_equalityI) (simp_all add: bget_nth)
  then show ?thesis unfolding ew2_def s by simp
qed

lemma ew3_same_scalar:
  "length a = length b \<Longrightarrow> ew3 f a b [c] = Inr (map2 (\<lambda>x y. f x y c) a b)"
proof -
  assume l: "length a = length b"
  have s: "bshape [length a, length b, length [c]] = Some (length b)"
    using l by (simp add: blen_def)
  have "map (\<lambda>i. f (bget a i) (bget b i) (bget [c] i)) [0..<length b]
        = map2 (\<lambda>x y. f x y c) a b"
    using l by (intro nth_equalityI) (simp_all add: bget_nth)
  then show ?thesis unfolding ew3_def s by simp
qed

lemma ew4_scalar_same:
  "length a = length b \<Longrightarrow> length c = length b \<Longrightarrow>
   ew4 f [s] a b c = Inr (map (\<lambda>i. f s (a ! i) (b ! i) (c ! i)) [0..<length b])"
proof -
  assume l: "length a = length b" "length c = length b"
  have s: "bshape [length [s], length a, length b, length c] = Some (length b)"
    using l by (simp add: blen_def)
  have "map (\<lambda>i. f (bget [s] i) (bget a i) (bget b i) (bget c i)) [0..<length b]
        = map (\<lambda>i. f s (a ! i) (b ! i) (c ! i)) [0..<length b]"
    using l by (intro nth_equalityI) (simp_all add: bget_nth)
  then show ?thesis unfolding ew4_def s by simp
qed

subsection \<open>Gaussian likelihood: EP at zero variance\<close>

text \<open>
  Claim C7. For the Gaussian likelihood with hyperparameter \<open>log_sigma\<close> and for all
  \<open>y\<close> and \<open>mu\<close> of one length, the EP-mode log-partition function evaluated at
  \<open>s2 = 0\<close> is the closed form \<open>-(y-mu)^2/(2*sn2) - log(2*pi*sn2)/2\<close> with
  \<open>sn2 = exp(2*log_sigma)\<close>, and it is the very value prediction mode returns as the
  exact log-likelihood: an identity, not a limit.
\<close>

theorem Gauss_EP_at_zero_variance_is_exact:
  assumes "length y = length mu"
  shows "Gauss_proceed [log_sigma] (Some y) mu (Some (replicate (length mu) 0)) (Some infEP) None 1
           = Inr (RArr (map2 (\<lambda>y mu. - ((y - mu)^2) / (2 * exp (2 * log_sigma))
                                      - ln (2 * pi * exp (2 * log_sigma)) / 2) y mu))
       \<and> Gauss_proceed [log_sigma] (Some y) mu (Some (replicate (length mu) 0)) (Some infEP) None 1
           = Gauss_proceed [log_sigma] (Some y) mu None None None 1"
proof -
  let ?f = "\<lambda>y mu. - ((y - mu)^2) / (2 * exp (2 * log_sigma))
                    - ln (2 * pi * exp (2 * log_sigma)) / 2"
  have ep: "Gauss_proceed [log_sigma] (Some y) mu (Some (replicate (length mu) 0))
              (Some infEP) None 1 = Inr (RArr (map2 ?f y mu))"
    using assms
    apply (simp add: Gauss_proceed_def Gauss_EP_def Gauss_sn2_def ew1_def
                     ew4_scalar_same bindE_def)
    apply (rule nth_equalityI; simp add: mult.commute)
    done
  have pr: "Gauss_proceed [log_sigma] (Some y) mu None None None 1
              = Inr (RArr (map2 ?f y mu))"
    using assms
    by (simp add: Gauss_proceed_def Gauss_sn2_def ew1_def ew3_same_scalar bindE_def
                  mult.commute)
  show ?thesis using ep pr by simp
qed

theorem Gauss_EP_at_zero_variance_is_exact_witness:
  "length [1::real] = length [1::real]
   \<and> Gauss_proceed [0] (Some [1]) [1] (Some [0]) (Some infEP) None 1
       = Inr (RArr [- ln (2 * pi) / 2])
   \<and> Gauss_proceed [0] (Some [1]) [1] None None None 1 = Inr (RArr [- ln (2 * pi) / 2])"
proof -
  have h: "length [1::real] = length [1::real]" by simp
  from Gauss_EP_at_zero_variance_is_exact [OF h, of 0] show ?thesis by auto
qed

lemma ew2_single: "ew2 f [a] [b] = Inr [f a b]"
  by (simp add: ew2_def blen_def)

subsection \<open>Unsupported inference modes\<close>

text \<open>
  Claim C4 says that a likelihood called with an inference mode it does not define, in
  particular the Gaussian or the Erf likelihood in VB mode, raises an error and never
  returns a value. The code does not: \<open>Gauss.proceed\<close> and \<open>Erf.proceed\<close> called with an
  instance of \<open>inf.VB\<close> return \<open>None\<close>, for every input, derivative index and width.
\<close>

theorem VB_mode_on_Gauss_and_Erf_returns_None:
  "Gauss_proceed log_sigma y mu s2 (Some infVB) der nargout = Inr RNone
   \<and> Erf_proceed erf y mu s2 (Some infVB) der nargout = Inr RNone"
  by (simp add: Gauss_proceed_def Erf_proceed_def Let_def)

subsection \<open>Laplace likelihood in Laplace-inference mode\<close>

text \<open>
  Claim C1 says that the Laplace likelihood in Laplace-inference mode returns, at width 4,
  \<open>(lp, dlp, d2lp, d3lp)\<close> with \<open>lp = -|y-mu|/b - log(2b)\<close>. The code does not: at
  \<open>y = [1]\<close>, \<open>mu = [0]\<close> the call with width 4 ends in a \<open>NameError\<close>, and the
  log-likelihood it returns at width 1 is \<open>+|y-mu|/b - log(2b)\<close>, with
  \<open>b = exp(log_sigma)/sqrt(2)\<close>.
\<close>

theorem Laplace_likelihood_Laplace_mode_defects:
  "Laplace_proceed erf erfc log_sigma (Some [1]) [0] s2 (Some infLaplace) None 4
     = Inl NameError
   \<and> Laplace_proceed erf erfc log_sigma (Some [1]) [0] s2 (Some infLaplace) None 1
       = Inr (RArr [1 / (exp log_sigma / sqrt 2) - ln (2 * (exp log_sigma / sqrt 2))])"
  by (simp add: Laplace_proceed_def Laplace_Laplace_def ew1_def ew2_single bindE_def)

text \<open>No input gets a derivative out of that branch.\<close>

lemma Laplace_mode_never_returns_derivatives:
  "1 < nargout \<Longrightarrow>
   Laplace_proceed erf erfc log_sigma y mu s2 (Some infLaplace) None nargout = Inl NameError
   \<or> Laplace_proceed erf erfc log_sigma y mu s2 (Some infLaplace) None nargout
       = Inl ValueError"
  by (auto simp add: Laplace_proceed_def Laplace_Laplace_def bindE_def ew2_def Let_def
           split: sum.splits option.splits)

text \<open>The prediction branch of the same class returns the formula of the claim.\<close>

lemma Laplace_prediction_is_exact:
  assumes "length y = length mu"
  shows "Laplace_proceed erf erfc log_sigma (Some y) mu None None der 1
           = Inr (RArr (map2 (\<lambda>y mu. - \<bar>y - mu\<bar> / (exp log_sigma / sqrt 2)
                                      - ln (2 * (exp log_sigma / sqrt 2))) y mu))"
  using assms
  by (simp add: Laplace_proceed_def Laplace_predict_def ew1_def ew3_same_scalar bindE_def)

subsection \<open>The Gaussian over the cumulative Gaussian\<close>

lemma direct_small: "exp (- (25::real) / 2) / sqrt (2 * pi) < 1"
proof -
  have "exp (- (25::real) / 2) < 1" by simp
  moreover have "1 \<le> sqrt (2 * pi)"
    using pi_ge_two by (simp add: real_le_rsqrt)
  ultimately show ?thesis
    by (smt (verit) divide_less_eq_1_pos exp_gt_zero less_le_trans)
qed

lemma bound_big: "(5::real) / 2 < sqrt (25 / 4 + 1) + 5 / 2"
  by simp

lemma strict_blend:
  fixes d b w :: real
  assumes "w < 1" "d < b"
  shows "d < (1 - w) * b + w * d"
proof -
  have "(1 - w) * d < (1 - w) * b"
    using assms by (intro mult_strict_left_mono) simp_all
  then show ?thesis by (simp add: algebra_simps)
qed

text \<open>
  Claim C6, as stated, fails: between \<open>-6\<close> and \<open>-5\<close> the code does not use a logistic
  weight. At \<open>z = -5\<close>, \<open>p = 1\<close> the code returns the direct value \<open>phi(z)/p\<close> alone
  (its weight on the bound is \<open>0\<close>), while a logistic weight lies strictly between
  \<open>0\<close> and \<open>1\<close> and so mixes in the bound, which is larger.
\<close>

theorem gauOverCumGauss_blend_is_not_logistic:
  "gauOverCumGauss [- 5] [1] \<noteq> Inr [gauOverCumGauss_logistic (- 5) 1]"
proof -
  define d :: real where "d = exp (- 25 / 2) / sqrt (2 * pi)"
  define b :: real where "b = sqrt (25 / 4 + 1) + 5 / 2"
  define w :: real where "w = 1 / (1 + exp (- 25 / 2))"
  have code: "gauOverCumGauss [- 5] [1] = Inr [d]"
    by (simp add: gauOverCumGauss_def gauOverCumGauss1_def d_def)
  have spec: "gauOverCumGauss_logistic (- 5) 1 = (1 - w) * b + w * d"
    by (simp add: gauOverCumGauss_logistic_def Let_def d_def b_def w_def)
  have l1: "w < 1" by (simp add: w_def add_pos_pos)
  have db: "d < b" using direct_small bound_big unfolding d_def b_def by linarith
  from strict_blend [OF l1 db] show ?thesis using code spec by simp
qed

text \<open>
  Claim C6, amended. For \<open>f\<close> and \<open>p\<close> of one length, \<open>gauOverCumGauss\<close> returns for
  each entry \<open>z\<close> of \<open>f\<close>: the direct value \<open>exp(-z^2/2)/sqrt(2 pi)/p\<close> for \<open>z > -5\<close>;
  the bound \<open>sqrt(z^2/4+1) - z/2\<close> for \<open>z < -6\<close>; and for \<open>-6 \<le> z \<le> -5\<close> the blend
  \<open>(1-lam)*direct + lam*bound\<close> with the linear weight \<open>lam = -5 - z\<close>, which runs from
  \<open>0\<close> at \<open>z = -5\<close> to \<open>1\<close> at \<open>z = -6\<close>.
\<close>

theorem gauOverCumGauss_three_regions:
  assumes "length f = length p"
  shows "\<exists>n_p. gauOverCumGauss f p = Inr n_p \<and> length n_p = length f \<and>
           (\<forall>i < length f.
              let z = f ! i;
                  direct = (exp (- (z^2) / 2) / sqrt (2 * pi)) / (p ! i);
                  bound = sqrt (z^2 / 4 + 1) - z / 2;
                  lam = - 5 - z
              in (z > - 5 \<longrightarrow> n_p ! i = direct)
               \<and> (z < - 6 \<longrightarrow> n_p ! i = bound)
               \<and> (- 6 \<le> z \<and> z \<le> - 5 \<longrightarrow>
                    n_p ! i = (1 - lam) * direct + lam * bound \<and> 0 \<le> lam \<and> lam \<le> 1))"
  using assms
  by (auto simp add: gauOverCumGauss_def gauOverCumGauss1_def Let_def)

theorem gauOverCumGauss_three_regions_witness:
  "length [- 11 / 2 :: real] = length [1 :: real] \<and>
   gauOverCumGauss [- 11 / 2] [1]
     = Inr [1 / 2 * (exp (- ((11 / 2)^2) / 2) / sqrt (2 * pi))
            + 1 / 2 * (sqrt ((11 / 2)^2 / 4 + 1) + 11 / 4)]"
proof -
  have h: "length [- 11 / 2 :: real] = length [1 :: real]" by simp
  from gauOverCumGauss_three_regions [OF h]
  obtain n_p where a: "gauOverCumGauss [- 11 / 2] [1] = Inr n_p"
     and b: "length n_p = 1"
     and c: "n_p ! 0 = 1 / 2 * (exp (- ((11 / 2)^2) / 2) / sqrt (2 * pi))
                       + 1 / 2 * (sqrt ((11 / 2)^2 / 4 + 1) + 11 / 4)"
    by (auto simp add: Let_def)
  from b c have "n_p = [1 / 2 * (exp (- ((11 / 2)^2) / 2) / sqrt (2 * pi))
                        + 1 / 2 * (sqrt ((11 / 2)^2 / 4 + 1) + 11 / 4)]"
    by (cases n_p) auto
  with a h show ?thesis by simp
qed

subsection \<open>Classification labels\<close>

lemma ysign_zero_as_one: "ysign (if v = 0 then 1 else v) = ysign v"
  by (simp add: ysign_def Let_def sgn_if)

lemma ysign_sign: "ysign (if v = 0 then 1 else sgn v) = ysign v"
  by (simp add: ysign_def Let_def sgn_if)

lemma ysign_value: "ysign v = (if v < 0 then - 1 else 1)"
  by (simp add: ysign_def Let_def sgn_if)

text \<open>
  Claim C8. For the classification likelihoods \<open>Erf\<close> and \<open>Logistic\<close>, in every mode
  (every \<open>inffunc\<close>, derivative index and width), a target \<open>0\<close> gives the result of
  the target \<open>+1\<close>, and a target that is not zero gives the result of its sign:
  replacing each zero of \<open>y\<close> by \<open>1\<close>, or each entry of \<open>y\<close> by its sign (and zero by
  \<open>1\<close>), leaves the result of \<open>proceed\<close> unchanged. The label that enters the formulas
  is \<open>-1\<close> for a negative target and \<open>+1\<close> for every other one: for \<open>y\<close> and \<open>mu\<close> of one
  length, \<open>Erf\<close> in Laplace mode returns at width 1 the log of the cumulative Gaussian at
  the label times \<open>mu\<close>, and the prediction of \<open>Logistic\<close> at zero variance the log-sigmoid
  at the label times \<open>mu\<close>; the VB branch of \<open>Logistic\<close>, for \<open>s2\<close> of one entry, returns
  half the label.
\<close>

theorem classification_labels_enter_by_sign_only:
  "Erf_proceed erf (Some y) mu s2 inffunc der nargout
     = Erf_proceed erf (Some (map (\<lambda>v. if v = 0 then 1 else v) y)) mu s2 inffunc der nargout
   \<and> Erf_proceed erf (Some y) mu s2 inffunc der nargout
     = Erf_proceed erf (Some (map (\<lambda>v. if v = 0 then 1 else sgn v) y)) mu s2 inffunc der
         nargout
   \<and> Logistic_proceed erf (Some y) mu s2 inffunc der nargout
     = Logistic_proceed erf (Some (map (\<lambda>v. if v = 0 then 1 else v) y)) mu s2 inffunc der
         nargout
   \<and> Logistic_proceed erf (Some y) mu s2 inffunc der nargout
     = Logistic_proceed erf (Some (map (\<lambda>v. if v = 0 then 1 else sgn v) y)) mu s2 inffunc
         der nargout
   \<and> (length y = length mu \<longrightarrow>
        Erf_proceed erf (Some y) mu s2 (Some infLaplace) None 1
          = Inr (RArr (map2 (\<lambda>v f. let yf = (if v < 0 then - 1 else 1) * f
                                    in logphi1 yf ((1 + erf (yf / sqrt 2)) / 2)) y mu)))
   \<and> (length y = length mu \<longrightarrow>
        Logistic_proceed erf (Some y) mu (Some (replicate (length mu) 0)) None der 1
          = Inr (RArr (map2 (\<lambda>v f. let yf = (if v < 0 then - 1 else 1) * f
                                    in if - 35 < yf then - ln (1 + exp (- yf)) else yf) y mu)))
   \<and> Logistic_proceed erf (Some y) mu (Some [s]) (Some infVB) der nargout
        = Inr (RTuple [map (\<lambda>v. (if v < 0 then - 1 else 1) / 2) y, map (\<lambda>v. 0) y])"
proof -
  have a: "ew1 ysign (map (\<lambda>v. if v = 0 then 1 else v) y) = ew1 ysign y"
    by (simp add: ew1_def ysign_zero_as_one comp_def)
  have b: "ew1 ysign (map (\<lambda>v. if v = 0 then 1 else sgn v) y) = ew1 ysign y"
    by (simp add: ew1_def ysign_sign comp_def)
  have inv: "Erf_proceed erf (Some y) mu s2 inffunc der nargout
     = Erf_proceed erf (Some (map (\<lambda>v. if v = 0 then 1 else v) y)) mu s2 inffunc der nargout
   \<and> Erf_proceed erf (Some y) mu s2 inffunc der nargout
     = Erf_proceed erf (Some (map (\<lambda>v. if v = 0 then 1 else sgn v) y)) mu s2 inffunc der
         nargout
   \<and> Logistic_proceed erf (Some y) mu s2 inffunc der nargout
     = Logistic_proceed erf (Some (map (\<lambda>v. if v = 0 then 1 else v) y)) mu s2 inffunc der
         nargout
   \<and> Logistic_proceed erf (Some y) mu s2 inffunc der nargout
     = Logistic_proceed erf (Some (map (\<lambda>v. if v = 0 then 1 else sgn v) y)) mu s2 inffunc
         der nargout"
    by (simp add: Erf_proceed_def Logistic_proceed_def a b)
  have e: "Erf_proceed erf (Some y) mu s2 (Some infLaplace) None 1
          = Inr (RArr (map2 (\<lambda>v f. let yf = (if v < 0 then - 1 else 1) * f
                                    in logphi1 yf ((1 + erf (yf / sqrt 2)) / 2)) y mu))"
    if l: "length y = length mu"
  proof -
    have l': "length (map ysign y) = length mu" using l by simp
    show ?thesis
      apply (simp add: Erf_proceed_def Erf_Laplace_def cumGauss_def logphi_def ew1_def
                       ew2_same [OF l'] bindE_def Let_def l)
      apply (rule nth_equalityI; simp add: ysign_value l)
      done
  qed
  have g: "Logistic_proceed erf (Some y) mu (Some (replicate (length mu) 0)) None der 1
          = Inr (RArr (map2 (\<lambda>v f. let yf = (if v < 0 then - 1 else 1) * f
                                    in if - 35 < yf then - ln (1 + exp (- yf)) else yf) y mu))"
    if l: "length y = length mu"
  proof -
    have l': "length (map ysign y) = length mu" using l by simp
    have one: "map2 (\<lambda>y m. y) (map ysign y) mu = map ysign y"
      using l by (intro nth_equalityI) simp_all
    show ?thesis
      apply (simp add: Logistic_proceed_def Logistic_predict_def ew1_def ew2_same [OF l'] one
                       bindE_def norm_pos_def list_ex_iff Let_def)
      apply (rule nth_equalityI; simp add: ysign_value l)
      done
  qed
  have v: "Logistic_proceed erf (Some y) mu (Some [s]) (Some infVB) der nargout
        = Inr (RTuple [map (\<lambda>v. (if v < 0 then - 1 else 1) / 2) y, map (\<lambda>v. 0) y])"
    by (simp add: Logistic_proceed_def Logistic_VB_def ew1_def ysign_value comp_def)
  from inv e g v show ?thesis by blast
qed

theorem classification_labels_enter_by_sign_only_witness:
  "length [- 3 :: real] = length [2 :: real]
   \<and> Erf_proceed erf_series (Some [- 3]) [2] None (Some infLaplace) None 1
       = Inr (RArr [logphi1 (- 2) ((1 + erf_series (- 2 / sqrt 2)) / 2)])
   \<and> Logistic_proceed erf_series (Some [- 3]) [2] (Some [0]) None None 1
       = Inr (RArr [- ln (1 + exp 2)])
   \<and> Logistic_proceed erf_series (Some [- 3, 0, 5]) [2] (Some [1]) (Some infVB) None 1
       = Inr (RTuple [[- 1 / 2, 1 / 2, 1 / 2], [0, 0, 0]])"
  using classification_labels_enter_by_sign_only
          [where erf = erf_series and y = "[- 3]" and mu = "[2]" and ?s2.0 = None
             and der = None and s = 0,
           THEN conjunct2, THEN conjunct2, THEN conjunct2, THEN conjunct2]
        classification_labels_enter_by_sign_only
          [where erf = erf_series and y = "[- 3, 0, 5]" and mu = "[2]" and der = None
             and s = 1 and nargout = 1,
           THEN conjunct2, THEN conjunct2, THEN conjunct2, THEN conjunct2, THEN conjunct2,
           THEN conjunct2]
  by (simp add: Let_def)

text \<open>In particular a batch of zero targets is a batch of targets \<open>+1\<close>.\<close>

lemma zero_labels_as_plus_one:
  "Erf_proceed erf (Some (replicate n 0)) mu s2 inffunc der nargout
     = Erf_proceed erf (Some (replicate n 1)) mu s2 inffunc der nargout"
  by (simp add: Erf_proceed_def ew1_def ysign_def)

subsection \<open>Logistic likelihood in Laplace-inference mode\<close>

lemma truth_many: "1 < length bs \<Longrightarrow> truth bs = Inl ValueError"
  by (cases bs; simp add: truth_def split: list.splits)

lemma ew2_long: "1 < length b \<Longrightarrow> ew2 f a b = Inr r \<Longrightarrow> length r = length b"
  by (auto simp add: ew2_def blen_def split: option.splits if_splits)

text \<open>
  Claim C9. For the Logistic likelihood in Laplace-inference mode (no derivative mode),
  every batch \<open>mu\<close> of more than one entry ends in an error, whatever \<open>y\<close>, \<open>s2\<close> and
  the width are: \<open>max(0,s)\<close> takes the truth value of the whole array \<open>s > 0\<close>, a
  \<open>ValueError\<close>, so no elementwise result is returned.
\<close>

theorem Logistic_Laplace_mode_rejects_batches:
  assumes "1 < length mu"
  shows "Logistic_proceed erf y mu s2 (Some infLaplace) None nargout = Inl ValueError"
proof -
  have "Logistic_Laplace yobj yn mu None nargout = Inl ValueError" for yobj yn
  proof (cases "ew2 (\<lambda>y f. y * f) yn mu")
    case (Inl e)
    then have "e = ValueError" by (auto simp add: ew2_def split: option.splits)
    with Inl show ?thesis by (simp add: Logistic_Laplace_def bindE_def)
  next
    case (Inr yf)
    then have "length yf = length mu" using assms by (rule ew2_long[rotated])
    then have "truth (map (\<lambda>s. s > 0) (ew1 uminus yf)) = Inl ValueError"
      using assms by (intro truth_many) (simp add: ew1_def)
    with Inr show ?thesis by (simp add: Logistic_Laplace_def bindE_def Let_def)
  qed
  then show ?thesis by (simp add: Logistic_proceed_def Let_def)
qed

theorem Logistic_Laplace_mode_rejects_batches_witness:
  "1 < length [1, 2 :: real]
   \<and> Logistic_proceed erf_series (Some [1, 1]) [1, 2] None (Some infLaplace) None 1
       = Inl ValueError"
proof -
  have h: "1 < length [1, 2 :: real]" by simp
  from Logistic_Laplace_mode_rejects_batches [OF h] h show ?thesis by blast
qed

text \<open>A batch of one entry is evaluated, up to the third derivative.\<close>

lemma Logistic_Laplace_mode_single:
  "\<exists>lp dlp d2lp d3lp.
     Logistic_proceed erf (Some [v]) [m] s2 (Some infLaplace) None 4
       = Inr (RTuple [[lp], [dlp], [d2lp], [d3lp]])"
  by (simp add: Logistic_proceed_def Logistic_Laplace_def Let_def ew1_def ew2_single
                bindE_def truth_def)

subsection \<open>Logistic likelihood in prediction mode\<close>

text \<open>
  Claim C2 says that the Logistic likelihood called in prediction mode with
  \<open>mu = [1,2,3]\<close>, no \<open>y\<close>, no \<open>s2\<close> and width 3 returns the log-sigmoid of \<open>mu\<close> and
  the two moments. The code does not return: \<open>np.atleast_2d\<close> has turned the absent
  \<open>s2\<close> into an object array holding \<open>None\<close>, the guard \<open>if not s2 == None\<close> lets it
  through, and \<open>np.linalg.norm(s2)\<close> raises.
\<close>

theorem Logistic_prediction_without_targets_fails:
  "Logistic_proceed erf None [1, 2, 3] None None None 3 = Inl ObjectArrayError"
  by (simp add: Logistic_proceed_def Logistic_predict_def ew2_def blen_def bindE_def)

text \<open>
  With the targets \<open>+1\<close> and the variances \<open>0\<close> passed explicitly, the same branch
  returns the log-sigmoid of \<open>mu\<close> and the moments \<open>2p-1\<close> and \<open>4p(1-p)\<close> with
  \<open>p = exp(lp)\<close>; the three log-likelihoods are within \<open>10^-4\<close> of \<open>-0.3133\<close>,
  \<open>-0.1269\<close> and \<open>-0.0486\<close>.
\<close>

lemma ew2_same3: "ew2 f [a, b, c] [a', b', c'] = Inr [f a a', f b b', f c c']"
  by (simp add: ew2_same)

lemma Logistic_prediction_with_targets:
  "Logistic_proceed erf (Some [1, 1, 1]) [1, 2, 3] (Some [0, 0, 0]) None None 3
     = Inr (RTuple
         [[- ln (1 + exp (- 1)), - ln (1 + exp (- 2)), - ln (1 + exp (- 3))],
          map (\<lambda>lp. 2 * exp lp - 1)
            [- ln (1 + exp (- 1)), - ln (1 + exp (- 2)), - ln (1 + exp (- 3))],
          map (\<lambda>lp. 4 * exp lp * (1 - exp lp))
            [- ln (1 + exp (- 1)), - ln (1 + exp (- 2)), - ln (1 + exp (- 3))]])"
  by (simp add: Logistic_proceed_def Logistic_predict_def ew1_def ew2_same3 bindE_def
                ysign_def norm_pos_def)

lemma exp_series_lower:
  fixes x :: real
  assumes "0 \<le> x"
  shows "(\<Sum>m<n. x^m / fact m) \<le> exp x"
proof -
  from Maclaurin_exp_le [of x n] obtain t where
    t: "exp x = (\<Sum>m<n. x^m / fact m) + (exp t / fact n) * x^n" by blast
  have "0 \<le> (exp t / fact n) * x^n" using assms by simp
  with t show ?thesis by linarith
qed

lemma exp_series_upper:
  fixes x :: real
  assumes "0 \<le> x" "x \<le> 1"
  shows "exp x \<le> (\<Sum>m<n. x^m / fact m) + 3 * x^n / fact n"
proof -
  from Maclaurin_exp_le [of x n] obtain t where
    t: "\<bar>t\<bar> \<le> \<bar>x\<bar>" "exp x = (\<Sum>m<n. x^m / fact m) + (exp t / fact n) * x^n" by blast
  have "t \<le> 1" using t(1) assms by linarith
  then have "exp t \<le> exp 1" by simp
  also have "\<dots> \<le> 3" by (rule exp_le)
  finally have "exp t \<le> 3" .
  then have "exp t * (x^n / fact n) \<le> 3 * (x^n / fact n)"
    using assms by (intro mult_right_mono) simp_all
  with t(2) show ?thesis by (simp add: field_simps)
qed

lemma e_bounds: "271828 / 100000 < exp (1::real)" "exp (1::real) < 271829 / 100000"
proof -
  have "(271828::real) / 100000 < (\<Sum>m<10. 1^m / fact m)"
    by (simp add: eval_nat_numeral sum.lessThan_Suc)
  also have "\<dots> \<le> exp 1" by (rule exp_series_lower) simp
  finally show "271828 / 100000 < exp (1::real)" .
  have "exp (1::real) \<le> (\<Sum>m<10. 1^m / fact m) + 3 * 1^10 / fact 10"
    by (rule exp_series_upper) simp_all
  also have "\<dots> < 271829 / 100000"
    by (simp add: eval_nat_numeral sum.lessThan_Suc)
  finally show "exp (1::real) < 271829 / 100000" .
qed


lemma ln_between:
  fixes a b v :: real
  assumes "exp a < v" "v < exp b"
  shows "a < ln v \<and> ln v < b"
proof -
  have v: "0 < v" using assms(1) exp_gt_zero [of a] by linarith
  have "ln (exp a) < ln v" using assms(1) v by (simp del: ln_exp)
  moreover have "ln v < ln (exp b)" using assms(2) v by (simp del: ln_exp)
  ultimately show ?thesis by simp
qed

lemma log1p_bounds:
  fixes u a b lo hi :: real
  assumes "0 \<le> a" "a \<le> 1" "0 \<le> b" and "lo < u" "u < hi"
    and "(\<Sum>m<6. a^m / fact m) + 3 * a^6 / fact 6 \<le> 1 + lo"
    and "1 + hi \<le> (\<Sum>m<6. b^m / fact m)"
  shows "a < ln (1 + u) \<and> ln (1 + u) < b"
proof (rule ln_between)
  have "exp a \<le> (\<Sum>m<6. a^m / fact m) + 3 * a^6 / fact 6"
    using assms(1,2) by (rule exp_series_upper)
  with assms(4,6) show "exp a < 1 + u" by linarith
  have "(\<Sum>m<6. b^m / fact m) \<le> exp b" using assms(3) by (rule exp_series_lower)
  with assms(5,7) show "1 + u < exp b" by linarith
qed

lemma exp_minus_nat_bounds:
  "0 < k \<Longrightarrow> (100000 / 271829)^k < exp (- real k) \<and> exp (- real k) < (100000 / 271828)^k"
proof -
  assume k: "0 < k"
  have e: "exp (- real k) = (1 / exp 1)^k"
    using exp_of_nat_mult [of k "- 1 :: real"] by (simp add: exp_minus field_simps)
  have lo: "(100000::real) / 271829 < 1 / exp 1"
    using e_bounds(2) by (simp add: field_simps)
  have hi: "1 / exp 1 < (100000::real) / 271828"
    using e_bounds(1) by (simp add: field_simps)
  have "((100000::real) / 271829)^k < (1 / exp 1)^k"
    using lo k by (intro power_strict_mono) simp_all
  moreover have "(1 / exp (1::real))^k < (100000 / 271828)^k"
    using hi k by (intro power_strict_mono) simp_all
  ultimately show ?thesis using e by simp
qed

lemma log_sigmoid_values:
  "\<bar>- ln (1 + exp (- 1)) - (- 3133 / 10000 :: real)\<bar> < 1 / 10000"
  "\<bar>- ln (1 + exp (- 2)) - (- 1269 / 10000 :: real)\<bar> < 1 / 10000"
  "\<bar>- ln (1 + exp (- 3)) - (- 486 / 10000 :: real)\<bar> < 1 / 10000"
proof -
  have b1: "(100000 / 271829)^1 < exp (- (1::real)) \<and> exp (- (1::real)) < (100000 / 271828)^1"
    using exp_minus_nat_bounds [of 1] by simp
  have "3132 / 10000 < ln (1 + exp (- (1::real))) \<and> ln (1 + exp (- (1::real))) < 3134 / 10000"
    by (rule log1p_bounds [where lo = "(100000 / 271829)^1" and hi = "(100000 / 271828)^1"])
       (use b1 in \<open>simp_all add: eval_nat_numeral sum.lessThan_Suc\<close>)
  then show "\<bar>- ln (1 + exp (- 1)) - (- 3133 / 10000 :: real)\<bar> < 1 / 10000"
    unfolding abs_less_iff by linarith
  have b2: "(100000 / 271829)^2 < exp (- (2::real)) \<and> exp (- (2::real)) < (100000 / 271828)^2"
    using exp_minus_nat_bounds [of 2] by simp
  have "1268 / 10000 < ln (1 + exp (- (2::real))) \<and> ln (1 + exp (- (2::real))) < 1270 / 10000"
    by (rule log1p_bounds [where lo = "(100000 / 271829)^2" and hi = "(100000 / 271828)^2"])
       (use b2 in \<open>simp_all add: eval_nat_numeral sum.lessThan_Suc\<close>)
  then show "\<bar>- ln (1 + exp (- 2)) - (- 1269 / 10000 :: real)\<bar> < 1 / 10000"
    unfolding abs_less_iff by linarith
  have b3: "(100000 / 271829)^3 < exp (- (3::real)) \<and> exp (- (3::real)) < (100000 / 271828)^3"
    using exp_minus_nat_bounds [of 3] by simp
  have "485 / 10000 < ln (1 + exp (- (3::real))) \<and> ln (1 + exp (- (3::real))) < 487 / 10000"
    by (rule log1p_bounds [where lo = "(100000 / 271829)^3" and hi = "(100000 / 271828)^3"])
       (use b3 in \<open>simp_all add: eval_nat_numeral sum.lessThan_Suc\<close>)
  then show "\<bar>- ln (1 + exp (- 3)) - (- 486 / 10000 :: real)\<bar> < 1 / 10000"
    unfolding abs_less_iff by linarith
qed

subsection \<open>Laplace likelihood in EP mode\<close>

lemma bindE_Inl: "bindE (Inl e) f = Inl e"
  by (simp add: bindE_def)

lemma any_map: "any (map P xs) = (\<exists>x\<in>set xs. P x)"
  by (simp add: any_def list_ex_iff)

lemma ew3_same_len:
  "length a = n \<Longrightarrow> length b = n \<Longrightarrow> length c = n \<Longrightarrow>
   \<exists>r. ew3 f a b c = Inr r \<and> length r = n"
  by (simp add: ew3_def blen_def)

lemma Gauss_predict_len:
  assumes "length h = k" "length a = k" "length b = k"
  shows "\<exists>r. Gauss_proceed h (Some a) b None None None 1 = Inr (RArr r) \<and> length r = k"
proof -
  have "length (Gauss_sn2 h) = k" using assms by (simp add: Gauss_sn2_def ew1_def)
  from ew3_same_len [OF assms(2) assms(3) this]
  obtain r where "ew3 (\<lambda>y mu sn2. - ((y - mu)^2) / sn2 / 2 - ln (2 * pi * sn2) / 2) a b (Gauss_sn2 h) = Inr r"
     "length r = k" by blast
  then show ?thesis by (simp add: Gauss_proceed_def bindE_def Let_def)
qed


lemma selm_one:
  "selm 1 [m] [v] = Inr (if m then [v] else [])"
  by (simp add: selm_def)

text \<open>The fallback for \<open>idlik\<close> never completes.\<close>

lemma idlik_branch_fails:
  assumes "any idlik"
    and n: "n = Max (set [length y, length mu, length s2, 1])"
    and l: "length idlik = length s2"
  shows "\<exists>e.
     bindE (selm n idlik s2)
       (\<lambda>s2l. bindE (selm n idlik mu)
       (\<lambda>mul. bindE (selm n idlik y)
       (\<lambda>yl. bindE (Gauss_proceed (ew1 (\<lambda>s. ln s / 2) s2l) (Some mul) yl None None None 1)
       (\<lambda>a. case a of
          RArr a \<Rightarrow>
            bindE (putc1 idlik (replicate n 0) (a ! 0))
            (\<lambda>lZ. if length a < 2 then Inl IndexError
               else
                 bindE (putc1 idlik (replicate n 0) (a ! 1))
                 (\<lambda>dlZ. if length a < 3 then Inl IndexError
                    else
                      bindE (putc1 idlik (replicate n 0) (a ! 2))
                      (\<lambda>d2lZ. Inr (lZ, dlZ, d2lZ))))
        | _ \<Rightarrow> Inl TypeError)))) = (Inl e :: error + (arr \<times> arr \<times> arr))"
proof (cases "length idlik = 1")
  case False
  then have p: "putc1 idlik c v = Inl IndexError" for c v by (simp add: putc1_def)
  show ?thesis
    by (cases "selm n idlik s2"; cases "selm n idlik mu"; cases "selm n idlik y")
       (auto simp add: bindE_def p split: sum.splits retval.splits)
next
  case True
  with l have ls: "length s2 = 1" by simp
  from True assms(1) have t: "idlik = [True]" by (cases idlik) (auto simp add: any_def)
  show ?thesis
  proof (cases "length mu = 1 \<and> length y = 1")
    case False
    then have "selm n idlik mu = Inl IndexError \<or> selm n idlik y = Inl IndexError"
      using True by (auto simp add: selm_def)
    then show ?thesis
      by (cases "selm n idlik s2"; cases "selm n idlik mu"; cases "selm n idlik y")
         (auto simp add: bindE_def)
  next
    case m: True
    with ls n have n1: "n = 1" by simp
    obtain s0 where s0: "s2 = [s0]" using ls by (cases s2) auto
    obtain m0 where m0: "mu = [m0]" using m by (cases mu) auto
    obtain y0 where y0: "y = [y0]" using m by (cases y) auto
    from Gauss_predict_len [of "[ln s0 / 2]" 1 "[m0]" "[y0]"]
    obtain a where a: "Gauss_proceed [ln s0 / 2] (Some [m0]) [y0] None None None 1 = Inr (RArr a)"
      "length a = 1" by auto
    show ?thesis
      by (simp add: n1 t s0 m0 y0 selm_def bindE_def ew1_def a putc1_def)
  qed
qed

text \<open>Neither does the call, as soon as one mask of a fallback class has a true entry.\<close>

lemma Laplace_EP_body_fallback:
  assumes f: "any (map (idlik1 s) s2) \<or> any (map (idgau1 s) s2)"
    and n: "n = Max (set [length y, length mu, length s2, 1])"
  shows "\<exists>e. Laplace_EP_body erf erfc n y mu s2 [s] (map (idlik1 s) s2) (map (idgau1 s) s2)
                None nargout = Inl e"
proof (cases "any (map (idlik1 s) s2)")
  case True
  have ll: "length (map (idlik1 s) s2) = length s2" by simp
  from idlik_branch_fails [OF True n ll] obtain e where
    "bindE (selm n (map (idlik1 s) s2) s2)
     (\<lambda>s2l. bindE (selm n (map (idlik1 s) s2) mu)
     (\<lambda>mul. bindE (selm n (map (idlik1 s) s2) y)
     (\<lambda>yl. bindE (Gauss_proceed (ew1 (\<lambda>s. ln s / 2) s2l) (Some mul) yl None None None 1)
     (\<lambda>a. case a of
        RArr a \<Rightarrow>
          bindE (putc1 (map (idlik1 s) s2) (replicate n 0) (a ! 0))
          (\<lambda>lZ. if length a < 2 then Inl IndexError
             else
               bindE (putc1 (map (idlik1 s) s2) (replicate n 0) (a ! 1))
               (\<lambda>dlZ. if length a < 3 then Inl IndexError
                  else
                    bindE (putc1 (map (idlik1 s) s2) (replicate n 0) (a ! 2))
                    (\<lambda>d2lZ. Inr (lZ, dlZ, d2lZ))))
      | _ \<Rightarrow> Inl TypeError)))) = (Inl e :: error + (arr \<times> arr \<times> arr))"
    by auto
  then show ?thesis
    using True
    by (simp only: Laplace_EP_body_def Let_def simp_thms if_True bindE_Inl) blast
next
  case False
  with f have g: "any (map (idgau1 s) s2)" by simp
  show ?thesis
    using False g
    by (cases "selm n (map (idgau1 s) s2) [s]")
       (simp_all add: Laplace_EP_body_def Let_def bindE_def)
qed



lemma Laplace_EP_unfold:
  "Laplace_proceed erf erfc log_sigma y mu (Some s2) (Some infEP) None nargout
     = Laplace_EP_body erf erfc
         (Max (set [length (case y of None \<Rightarrow> ew1 (\<lambda>_. 0) mu | Some y \<Rightarrow> y), length mu,
                    length s2, 1]))
         (case y of None \<Rightarrow> ew1 (\<lambda>_. 0) mu | Some y \<Rightarrow> y) mu s2
         [exp log_sigma] (map (idlik1 (exp log_sigma)) s2) (map (idgau1 (exp log_sigma)) s2)
         None nargout"
  by (simp add: Laplace_proceed_def Laplace_EP_def Let_def ew1_def)

lemma sqrt_1e8: "sqrt 100000000 = 10000"
  by (rule real_sqrt_unique) simp_all

lemma ew3_single: "ew3 f [a] [b] [c] = Inr [f a b c]"
  by (simp add: ew3_def blen_def)

text \<open>
  Claim C3. In EP mode of \<open>Laplace\<close> the elements with \<open>sqrt(s2) > 1000*sn\<close> (mask
  \<open>idlik\<close>) are meant for the Gaussian formula with the variance \<open>s2\<close>, and the elements with
  \<open>sn > 1000*sqrt(s2)\<close> (mask \<open>idgau\<close>) for the Laplace density, to give \<open>(lZ, dlZ, d2lZ)\<close>.
  The code does not get there. With \<open>sn = 1\<close>, a batch of the one element \<open>s2 = 0\<close> (mask
  \<open>idgau\<close>) ends in \<open>TypeError\<close>, at the constructor call \<open>Laplace(log_hyp=...)\<close>, whose
  parameter is \<open>log_sigma\<close>; a batch of the one element \<open>s2 = 1e8\<close> (mask \<open>idlik\<close>) ends in
  \<open>IndexError\<close>, at \<open>a[1]\<close>, since \<open>Gauss.proceed\<close> is called at its default width and
  returns the one array \<open>lp\<close>. This is so at every requested width.
\<close>

theorem Laplace_EP_fallback_classes_fail:
  "Laplace_proceed erf erfc 0 (Some [0]) [0] (Some [0]) (Some infEP) None nargout
     = Inl TypeError
   \<and> Laplace_proceed erf erfc 0 (Some [0]) [0] (Some [100000000]) (Some infEP) None nargout
     = Inl IndexError"
  by (simp add: Laplace_proceed_def Laplace_EP_def Laplace_EP_body_def Let_def ew1_def
                idlik1_def idgau1_def fac_def sqrt_1e8 any_def selm_def putc1_def bindE_def
                Gauss_proceed_def Gauss_sn2_def ew3_single)

text \<open>
  More generally no batch with an element in one of the two fallback classes is evaluated,
  whatever the width and the other elements are.
\<close>

lemma Laplace_EP_fallback_element_raises:
  assumes "\<exists>x \<in> set s2. idlik1 (exp log_sigma) x \<or> idgau1 (exp log_sigma) x"
  shows "\<exists>e. Laplace_proceed erf erfc log_sigma y mu (Some s2) (Some infEP) None nargout
               = Inl e"
proof -
  from assms have "any (map (idlik1 (exp log_sigma)) s2) \<or> any (map (idgau1 (exp log_sigma)) s2)"
    by (auto simp add: any_map)
  from Laplace_EP_body_fallback [OF this refl] show ?thesis
    unfolding Laplace_EP_unfold .
qed




text \<open>A batch of one entry in the general class is evaluated at every width.\<close>

lemma Laplace_EP_single_general:
  assumes "id1 (exp log_sigma) s"
  shows "Laplace_proceed erf erfc log_sigma (Some [y]) [m] (Some [s]) (Some infEP) None 3
         = Inr (RTuple
             [[Laplace_gen_lZ erf (y, m, s, exp log_sigma)],
              [Laplace_gen_dlZ erf (y, m, s, exp log_sigma)],
              [Laplace_gen_d2lZ erf (y, m, s, exp log_sigma)
                 (Laplace_gen_dlZ erf (y, m, s, exp log_sigma))]])"
  using assms
  by (simp add: Laplace_proceed_def Laplace_EP_def Laplace_EP_body_def Let_def ew1_def
                id1_def any_def selm_def putc1_def putc_def bindE_def)

subsection \<open>Requested width\<close>

lemma k_cases: "(1::int) \<le> k \<Longrightarrow> k \<le> 3 \<Longrightarrow> k = 1 \<or> k = 2 \<or> k = 3"
  by arith

lemmas take_num = numeral_2_eq_2 numeral_3_eq_3

lemma inf_cases:
  "inffunc \<noteq> Some infVB \<Longrightarrow> inffunc = None \<or> der = None \<Longrightarrow>
   inffunc = None \<or> (der = None \<and> (inffunc = Some infEP \<or> inffunc = Some infLaplace \<or> inffunc = Some infOther))"
  by (cases inffunc; simp) (rename_tac i, case_tac i; simp)

lemma Gauss_prefix:
  assumes "1 \<le> k" "k \<le> 3" "inffunc \<noteq> Some infVB" "inffunc = None \<or> der = None"
    and "Gauss_proceed ls y mu s2 inffunc der k = Inr r"
    and "Gauss_proceed ls y mu s2 inffunc der (k + 1) = Inr r'"
  shows "components r = take (nat k) (components r')"
proof -
  from assms(1,2) have k: "k = 1 \<or> k = 2 \<or> k = 3" by (rule k_cases)
  from inf_cases[OF assms(3,4)] show ?thesis
  proof (elim disjE conjE)
    assume "inffunc = None"
    with assms(5,6) k show ?thesis
      by (elim disjE)
         (auto simp add: Gauss_proceed_def Let_def bindE_def take_num
               split: sum.splits prod.splits)
  next
    assume "der = None" "inffunc = Some infEP"
    with assms(5,6) k show ?thesis
      by (elim disjE)
         (auto simp add: Gauss_proceed_def Gauss_EP_def Let_def bindE_def take_num
               split: sum.splits option.splits)
  next
    assume "der = None" "inffunc = Some infLaplace"
    with assms(5,6) k show ?thesis
      by (elim disjE)
         (auto simp add: Gauss_proceed_def Gauss_Laplace_def Let_def bindE_def take_num
               split: sum.splits option.splits)
  next
    assume "der = None" "inffunc = Some infOther"
    with assms(5,6) show ?thesis
      by (auto simp add: Gauss_proceed_def Let_def)
  qed
qed


lemma Erf_prefix:
  assumes "1 \<le> k" "k \<le> 3" "inffunc \<noteq> Some infVB" "inffunc = None \<or> der = None"
    and "Erf_proceed erf y mu s2 inffunc der k = Inr r"
    and "Erf_proceed erf y mu s2 inffunc der (k + 1) = Inr r'"
  shows "components r = take (nat k) (components r')"
proof -
  from assms(1,2) have k: "k = 1 \<or> k = 2 \<or> k = 3" by (rule k_cases)
  from inf_cases[OF assms(3,4)] show ?thesis
  proof (elim disjE conjE)
    assume "inffunc = None"
    with assms(5,6) k show ?thesis
      by (elim disjE)
         (auto simp add: Erf_proceed_def Let_def bindE_def take_num
               split: sum.splits prod.splits)
  next
    assume "der = None" "inffunc = Some infEP"
    with assms(5,6) k show ?thesis
      by (elim disjE)
         (auto simp add: Erf_proceed_def Erf_EP_def Let_def bindE_def take_num
               split: sum.splits option.splits prod.splits)
  next
    assume "der = None" "inffunc = Some infLaplace"
    with assms(5,6) k show ?thesis
      by (elim disjE)
         (auto simp add: Erf_proceed_def Erf_Laplace_def Let_def bindE_def take_num
               split: sum.splits option.splits prod.splits)
  next
    assume "der = None" "inffunc = Some infOther"
    with assms(5,6) show ?thesis
      by (auto simp add: Erf_proceed_def Let_def)
  qed
qed

lemma Logistic_prefix:
  assumes "1 \<le> k" "k \<le> 3" "inffunc \<noteq> Some infVB" "inffunc = None \<or> der = None"
    and "Logistic_proceed erf y mu s2 inffunc der k = Inr r"
    and "Logistic_proceed erf y mu s2 inffunc der (k + 1) = Inr r'"
  shows "components r = take (nat k) (components r')"
proof -
  from assms(1,2) have k: "k = 1 \<or> k = 2 \<or> k = 3" by (rule k_cases)
  from inf_cases[OF assms(3,4)] show ?thesis
  proof (elim disjE conjE)
    assume "inffunc = None"
    with assms(5,6) k show ?thesis
      by (elim disjE)
         (auto simp add: Logistic_proceed_def Logistic_predict_def Let_def bindE_def take_num
               split: sum.splits prod.splits option.splits if_splits)
  next
    assume "der = None" "inffunc = Some infEP"
    with assms(5,6) k show ?thesis
      by (elim disjE)
         (auto simp add: Logistic_proceed_def Logistic_EP_def Let_def bindE_def take_num
               split: sum.splits option.splits prod.splits if_splits retval.splits list.splits)
  next
    assume "der = None" "inffunc = Some infLaplace"
    with assms(5,6) k show ?thesis
      by (elim disjE)
         (auto simp add: Logistic_proceed_def Logistic_Laplace_def Let_def bindE_def take_num
               split: sum.splits option.splits prod.splits if_splits)
  next
    assume "der = None" "inffunc = Some infOther"
    with assms(5,6) show ?thesis
      by (auto simp add: Logistic_proceed_def Let_def)
  qed
qed

lemma Laplace_EP_body_prefix:
  assumes "k = 1 \<or> k = 2 \<or> k = 3"
    and "Laplace_EP_body erf erfc n y mu s2 sn idlik idgau None k = Inr r"
    and "Laplace_EP_body erf erfc n y mu s2 sn idlik idgau None (k + 1) = Inr r'"
  shows "components r = take (nat k) (components r')"
proof -
  define id where "id = map2 (\<lambda>g l. \<not> g \<and> \<not> l) idgau idlik"
  define pre where "pre =
          (if any idlik then
             bindE (selm n idlik s2)
             (\<lambda>s2l. bindE (selm n idlik mu)
             (\<lambda>mul. bindE (selm n idlik y)
             (\<lambda>yl. bindE (Gauss_proceed (ew1 (\<lambda>s. ln s / 2) s2l) (Some mul) yl
                              None None None 1)
             (\<lambda>a. case a of
                RArr a \<Rightarrow>
                  bindE (putc1 idlik (replicate n 0) (a ! 0))
                  (\<lambda>lZ. if length a < 2 then Inl IndexError
                     else
                       bindE (putc1 idlik (replicate n 0) (a ! 1))
                       (\<lambda>dlZ. if length a < 3 then Inl IndexError
                          else
                            bindE (putc1 idlik (replicate n 0) (a ! 2))
                            (\<lambda>d2lZ. Inr (lZ, dlZ, d2lZ))))
              | _ \<Rightarrow> Inl TypeError))))
           else Inr (replicate n 0, replicate n 0, replicate n 0))"
  define mid where "mid =
             (if any idgau then bindE (selm n idgau sn) (\<lambda>snl. Inl TypeError)
              else Inr ())"
  define gen where "gen = (\<lambda>lZ.
             (if any id then
                bindE (selm n id s2)
                (\<lambda>s2s. bindE (selm n id sn)
                (\<lambda>sns. bindE (selm n id mu)
                (\<lambda>mus. bindE (selm n id y)
                (\<lambda>ys. let es = zip ys (zip mus (zip s2s sns)) in
                   bindE (putc id lZ (map (Laplace_gen_lZ erf) es))
                   (\<lambda>lZ. Inr (lZ, Some es))))))
              else Inr (lZ, None)))"
  have b: "Laplace_EP_body erf erfc n y mu s2 sn idlik idgau None m =
     bindE pre (\<lambda>(lZ, dlZ, d2lZ).
           bindE mid
           (\<lambda>_. bindE (gen lZ)
             (\<lambda>(lZ, gen).
                if m > 1 then
                  (case gen of
                     None \<Rightarrow> Inl NameError
                   | Some es \<Rightarrow>
                       bindE (putc1 id dlZ (Laplace_gen_dlZ erf (hd es)))
                       (\<lambda>dlZ. if m > 2 then
                          (if length es \<noteq> 1 then Inl ValueError
                           else
                             bindE (putc1 id d2lZ
                                      (Laplace_gen_d2lZ erf (hd es)
                                         (Laplace_gen_dlZ erf (hd es))))
                             (\<lambda>d2lZ. Inr (RTuple [lZ, dlZ, d2lZ])))
                        else Inr (RTuple [lZ, dlZ])))
                else Inr (RArr lZ))))" for m
    by (simp only: Laplace_EP_body_def pre_def mid_def id_def gen_def Let_def simp_thms if_True)
  from assms show ?thesis
    unfolding b
    by (elim disjE)
       (auto simp add: bindE_def Let_def take_num
             split: sum.splits prod.splits option.splits if_splits)
qed

lemma Laplace_EP_prefix:
  assumes "k = 1 \<or> k = 2 \<or> k = 3"
    and "Laplace_EP erf erfc sn y mu s2 None k = Inr r"
    and "Laplace_EP erf erfc sn y mu s2 None (k + 1) = Inr r'"
  shows "components r = take (nat k) (components r')"
  using assms(2,3) Laplace_EP_body_prefix[OF assms(1)]
  by (auto simp add: Laplace_EP_def Let_def split: option.splits)

lemma Laplace_prefix:
  assumes "1 \<le> k" "k \<le> 3" "inffunc \<noteq> Some infVB" "inffunc = None \<or> der = None"
    and "Laplace_proceed erf erfc ls y mu s2 inffunc der k = Inr r"
    and "Laplace_proceed erf erfc ls y mu s2 inffunc der (k + 1) = Inr r'"
  shows "components r = take (nat k) (components r')"
proof -
  from assms(1,2) have k: "k = 1 \<or> k = 2 \<or> k = 3" by (rule k_cases)
  from inf_cases[OF assms(3,4)] show ?thesis
  proof (elim disjE conjE)
    assume "inffunc = None"
    with assms(5,6) k show ?thesis
      by (elim disjE)
         (auto simp add: Laplace_proceed_def Laplace_predict_def Let_def bindE_def take_num
               split: sum.splits prod.splits option.splits if_splits)
  next
    assume "der = None" "inffunc = Some infEP"
    with assms(5,6) Laplace_EP_prefix[OF k] show ?thesis
      by (simp add: Laplace_proceed_def Let_def)
  next
    assume "der = None" "inffunc = Some infLaplace"
    with assms(5,6) k show ?thesis
      by (elim disjE)
         (auto simp add: Laplace_proceed_def Laplace_Laplace_def Let_def bindE_def take_num
               split: sum.splits option.splits prod.splits if_splits)
  next
    assume "der = None" "inffunc = Some infOther"
    with assms(5,6) show ?thesis
      by (auto simp add: Laplace_proceed_def Let_def)
  qed
qed


lemma ew4_single: "ew4 f [a] [b] [c] [d] = Inr [f a b c d]"
  by (simp add: ew4_def blen_def)

text \<open>
  Claim C5, as stated, fails: the VB branch of \<open>Logistic.proceed\<close> returns \<open>(b, z)\<close>
  whatever the width, and the hyperparameter-derivative branch of \<open>Gauss.proceed\<close> in
  Laplace mode returns three sequences whatever the width. At width 1 they return two
  and three sequences, not the first sequence of the width-2 result.
\<close>

theorem width_one_result_is_not_first_component:
  "proceed erf_series erfc_series Logistic (Some [1]) [0] (Some [1]) (Some infVB) None 1
     = Inr (RTuple [[1 / 2], [0]])
   \<and> proceed erf_series erfc_series Logistic (Some [1]) [0] (Some [1]) (Some infVB) None 2
     = Inr (RTuple [[1 / 2], [0]])
   \<and> components (RTuple [[1 / 2], [0]]) \<noteq> take 1 (components (RTuple [[1 / 2], [0]]))
   \<and> proceed erf_series erfc_series (Gauss [0]) (Some [1]) [0] None (Some infLaplace)
        (Some 0) 1 = Inr (RTuple [[0], [- 2], [2]])
   \<and> proceed erf_series erfc_series (Gauss [0]) (Some [1]) [0] None (Some infLaplace)
        (Some 0) 2 = Inr (RTuple [[0], [- 2], [2]])
   \<and> components (RTuple [[0], [- 2], [2]]) \<noteq> take 1 (components (RTuple [[0], [- 2], [2]]))"
  by (simp add: proceed_def Logistic_proceed_def Logistic_VB_def ysign_def ew1_def
                Gauss_proceed_def Gauss_Laplace_def Gauss_sn2_def ew2_single ew3_single
                bindE_def)

text \<open>
  Claim C5, amended. For every likelihood variant, in prediction mode and in Laplace and
  EP mode without a hyperparameter index, and for every input: if evaluating with
  requested width \<open>k\<close> (\<open>1 \<le> k \<le> 3\<close>) and with width \<open>k+1\<close> both succeed, the
  width-\<open>k\<close> result is exactly the first \<open>k\<close> sequences of the width-\<open>(k+1)\<close> result.
  (The VB branches and the hyperparameter-derivative branches do not read the width.)
\<close>

theorem width_k_result_is_prefix:
  assumes "1 \<le> k" "k \<le> 3" "inffunc \<noteq> Some infVB" "inffunc = None \<or> der = None"
    and "proceed erf erfc lik y mu s2 inffunc der k = Inr r"
    and "proceed erf erfc lik y mu s2 inffunc der (k + 1) = Inr r'"
  shows "components r = take (nat k) (components r')"
proof (cases lik)
  case (Gauss ls)
  with assms show ?thesis using Gauss_prefix by (simp add: proceed_def)
next
  case Erf
  with assms show ?thesis using Erf_prefix by (simp add: proceed_def)
next
  case Logistic
  with assms show ?thesis using Logistic_prefix by (simp add: proceed_def)
next
  case (Laplace ls)
  with assms show ?thesis using Laplace_prefix by (simp add: proceed_def)
qed

theorem width_k_result_is_prefix_witness:
  "(1::int) \<le> 1 \<and> (1::int) \<le> 3 \<and> Some infEP \<noteq> Some infVB
   \<and> proceed erf_series erfc_series (Gauss [0]) (Some [1]) [1] (Some [0]) (Some infEP) None 1
       = Inr (RArr [- ln (2 * pi) / 2])
   \<and> proceed erf_series erfc_series (Gauss [0]) (Some [1]) [1] (Some [0]) (Some infEP) None
       (1 + 1) = Inr (RTuple [[- ln (2 * pi) / 2], [0]])
   \<and> components (RArr [- ln (2 * pi) / 2])
       = take (nat 1) (components (RTuple [[- ln (2 * pi) / 2], [0]]))"
proof -
  have a: "proceed erf_series erfc_series (Gauss [0]) (Some [1]) [1] (Some [0]) (Some infEP)
             None 1 = Inr (RArr [- ln (2 * pi) / 2])"
    by (simp add: proceed_def Gauss_proceed_def Gauss_EP_def Gauss_sn2_def ew1_def
                  ew4_single bindE_def)
  have b: "proceed erf_series erfc_series (Gauss [0]) (Some [1]) [1] (Some [0]) (Some infEP)
             None (1 + 1) = Inr (RTuple [[- ln (2 * pi) / 2], [0]])"
    by (simp add: proceed_def Gauss_proceed_def Gauss_EP_def Gauss_sn2_def ew1_def
                  ew4_single bindE_def)
  have h: "(1::int) \<le> 1" "(1::int) \<le> 3" "Some infEP \<noteq> Some infVB"
          "Some infEP = None \<or> (None :: nat option) = None"
    by simp_all
  from width_k_result_is_prefix [OF h a b] a b show ?thesis by simp
qed

text \<open>The branches left out above return the same value at every width.\<close>

lemma width_ignored:
  assumes "inffunc = Some infVB \<or> (der \<noteq> None \<and> inffunc \<noteq> None)"
  shows "proceed erf erfc lik y mu s2 inffunc der k
           = proceed erf erfc lik y mu s2 inffunc der k'"
proof -
  from assms obtain i where i: "inffunc = Some i" by auto
  show ?thesis
    using assms i
    by (cases lik; cases i)
       (auto simp add: proceed_def Gauss_proceed_def Gauss_EP_def Gauss_Laplace_def
          Erf_proceed_def Erf_EP_def Erf_Laplace_def Logistic_proceed_def Logistic_EP_def
          Logistic_Laplace_def Laplace_proceed_def Laplace_EP_def Laplace_EP_body_def
          Laplace_Laplace_def Let_def split: option.splits)
qed

end
